theory Spec2Isabelle
  imports Complex_Main "HOL-Library.AList"
begin

section \<open>JavaScript values\<close>

text \<open>
  The client is JavaScript: every value it reads from storage, from a server's answer or
  from its own configuration is dynamically typed, and the code tests values by their
  truthiness. The model keeps that: a value is a \<open>jsval\<close>. Numbers are the integers
  (every number the client computes is a count of milliseconds) and \<open>NaN\<close>, the
  result of \<open>parseInt\<close> on a text with no leading digits; the model is exact for
  the integers that a double holds exactly, of magnitude up to \<open>2^53\<close>, and the
  theorems below that depend on the value of a number say so. Texts are ASCII. An object
  is the list of its own properties; an array carries its elements and the named
  properties that an assignment may have added to it. The values are those of JSON: no
  value is a function.
\<close>

datatype jsval =
    Undefined
  | Null
  | Bool bool
  | Num int
  | NaN
  | Str string
  | Arr "jsval list" "(string \<times> jsval) list"
  | Obj "(string \<times> jsval) list"

text \<open>
  What can be thrown, or be the reason of a rejected promise: the \<open>SyntaxError\<close> of
  \<open>JSON.parse\<close>, the \<open>TypeError\<close> of a property access on \<open>null\<close> or
  \<open>undefined\<close> (and of an assignment to a property of a primitive: the file is in
  strict mode), \<open>new Error(message)\<close>, and whatever reason the transport rejects with.
\<close>

datatype exn = SyntaxError | TypeError | Error string | Reason jsval

datatype 'a promise = Resolved 'a | Rejected exn | Pending

fun truthy :: "jsval \<Rightarrow> bool" where
  "truthy Undefined = False"
| "truthy Null = False"
| "truthy (Bool b) = b"
| "truthy (Num n) = (n \<noteq> 0)"
| "truthy NaN = False"
| "truthy (Str s) = (s \<noteq> [])"
| "truthy (Arr xs ps) = True"
| "truthy (Obj fs) = True"

definition lookup :: "(string \<times> jsval) list \<Rightarrow> string \<Rightarrow> jsval" where
  "lookup fs k = (case map_of fs k of None \<Rightarrow> Undefined | Some v \<Rightarrow> v)"

text \<open>
  \<open>v.k\<close>, for the property names this client uses (\<open>access_token\<close>,
  \<open>expires_at\<close>, \<open>expires_in\<close>, \<open>refresh_token\<close>, \<open>Error\<close> and the option names
  of \<open>initialize\<close>): none of them is a property that strings, numbers, booleans or
  arrays have of their own.
\<close>

fun get_prop :: "jsval \<Rightarrow> string \<Rightarrow> exn + jsval" where
  "get_prop Undefined k = Inl TypeError"
| "get_prop Null k = Inl TypeError"
| "get_prop (Obj fs) k = Inr (lookup fs k)"
| "get_prop (Arr xs ps) k = Inr (lookup ps k)"
| "get_prop v k = Inr Undefined"

text \<open>\<open>v.k = x\<close> in strict mode.\<close>

fun set_prop :: "jsval \<Rightarrow> string \<Rightarrow> jsval \<Rightarrow> exn + jsval" where
  "set_prop (Obj fs) k x = Inr (Obj (AList.update k x fs))"
| "set_prop (Arr xs ps) k x = Inr (Arr xs (AList.update k x ps))"
| "set_prop v k x = Inl TypeError"

text \<open>\<open>delete(v.k)\<close>.\<close>

fun delete_prop :: "jsval \<Rightarrow> string \<Rightarrow> exn + jsval" where
  "delete_prop Undefined k = Inl TypeError"
| "delete_prop Null k = Inl TypeError"
| "delete_prop (Obj fs) k = Inr (Obj (AList.delete k fs))"
| "delete_prop (Arr xs ps) k = Inr (Arr xs (AList.delete k ps))"
| "delete_prop v k = Inr v"

subsection \<open>Conversions to text and to number\<close>

fun digits :: "nat \<Rightarrow> string" where
  "digits n =
     (if n < 10 then [''0123456789'' ! n]
      else digits (n div 10) @ [''0123456789'' ! (n mod 10)])"

declare digits.simps [simp del]

definition show_int :: "int \<Rightarrow> string" where
  "show_int i = (if i < 0 then CHR ''-'' # digits (nat (- i)) else digits (nat i))"

fun join :: "string list \<Rightarrow> string" where
  "join [] = []"
| "join [s] = s"
| "join (s # t # ss) = s @ CHR '','' # join (t # ss)"

definition own :: "(string \<times> jsval) list \<Rightarrow> string \<Rightarrow> bool" where
  "own fs k = (k \<in> fst ` set fs)"

text \<open>
  The conversion of a value to a primitive and then to a text, as \<open>parseInt\<close>, the
  \<open>+\<close> of a text and \<open>new Error\<close> apply it. An object is converted by its
  \<open>toString\<close>: the inherited one gives \<open>[object Object]\<close>, but an own property of that
  name hides it and, being no function, cannot be called: the conversion throws a
  \<open>TypeError\<close>. (The inherited \<open>valueOf\<close> returns the object itself and an own one
  cannot be called, so \<open>valueOf\<close> never yields the primitive.) An array is its
  elements joined by commas, \<open>null\<close> and \<open>undefined\<close> elements as the empty text; an
  own \<open>join\<close> that is no function makes it \<open>[object Array]\<close>. An integer of
  magnitude below \<open>10^21\<close> is written in decimal; the larger ones, which the
  language writes with an exponent, are outside the model.
\<close>

fun to_string :: "jsval \<Rightarrow> exn + string"
  and element_strings :: "jsval list \<Rightarrow> exn + string list" where
  "to_string Undefined = Inr ''undefined''"
| "to_string Null = Inr ''null''"
| "to_string (Bool b) = Inr (if b then ''true'' else ''false'')"
| "to_string (Num n) = Inr (show_int n)"
| "to_string NaN = Inr ''NaN''"
| "to_string (Str s) = Inr s"
| "to_string (Arr xs ps) =
     (if own ps ''toString'' then Inl TypeError
      else if own ps ''join'' then Inr ''[object Array]''
      else (case element_strings xs of Inl e \<Rightarrow> Inl e | Inr ss \<Rightarrow> Inr (join ss)))"
| "to_string (Obj fs) =
     (if own fs ''toString'' then Inl TypeError else Inr ''[object Object]'')"
| "element_strings [] = Inr []"
| "element_strings (x # xs) =
     (case (if x = Undefined \<or> x = Null then Inr [] else to_string x) of
        Inl e \<Rightarrow> Inl e
      | Inr s \<Rightarrow> (case element_strings xs of Inl e \<Rightarrow> Inl e | Inr ss \<Rightarrow> Inr (s # ss)))"

definition digit_value :: "char \<Rightarrow> nat option" where
  "digit_value c = map_of (zip ''0123456789'' [0 ..< 10]) c"

definition hex_value :: "char \<Rightarrow> nat option" where
  "hex_value c =
     map_of (zip ''0123456789abcdef'' [0 ..< 16] @ zip ''ABCDEF'' [10 ..< 16]) c"

definition octal_value :: "char \<Rightarrow> nat option" where
  "octal_value c = map_of (zip ''01234567'' [0 ..< 8]) c"

definition binary_value :: "char \<Rightarrow> nat option" where
  "binary_value c = map_of (zip ''01'' [0 ..< 2]) c"

definition white_space :: "char \<Rightarrow> bool" where
  "white_space c = (c \<in> set [CHR '' '', CHR 0x09, CHR 0x0A, CHR 0x0B, CHR 0x0C, CHR 0x0D])"

text \<open>
  The value of the longest prefix of digits, whether there was a digit, and the rest of
  the text.
\<close>

fun leading_digits :: "(char \<Rightarrow> nat option) \<Rightarrow> nat \<Rightarrow> nat \<Rightarrow> bool \<Rightarrow> string \<Rightarrow> nat \<times> bool \<times> string" where
  "leading_digits val radix acc seen [] = (acc, seen, [])"
| "leading_digits val radix acc seen (c # cs) =
     (case val c of
        None \<Rightarrow> (acc, seen, c # cs)
      | Some d \<Rightarrow> leading_digits val radix (acc * radix + d) True cs)"

definition hex_prefix :: "string \<Rightarrow> bool" where
  "hex_prefix s = (take 2 s = ''0x'' \<or> take 2 s = ''0X'')"

text \<open>
  \<open>parseInt(v)\<close> with no radix: the text of \<open>v\<close> (whose conversion may throw),
  leading white space skipped, an optional sign, an optional \<open>0x\<close>, then the longest
  run of digits; \<open>NaN\<close> when there is no digit.
\<close>

definition parseInt :: "jsval \<Rightarrow> exn + jsval" where
  "parseInt v =
     (case to_string v of
        Inl e \<Rightarrow> Inl e
      | Inr t \<Rightarrow>
          (let s = dropWhile white_space t;
               negative = (take 1 s = ''-'');
               s1 = (if take 1 s = ''-'' \<or> take 1 s = ''+'' then drop 1 s else s);
               (n, seen, rest) =
                 (if hex_prefix s1 then leading_digits hex_value 16 0 False (drop 2 s1)
                  else leading_digits digit_value 10 0 False s1)
           in Inr (if seen then Num (if negative then - int n else int n) else NaN)))"

text \<open>
  The numbers that a text can denote: a decimal fraction, an infinity, or none
  (\<open>NaN\<close>). They are kept exact; a double rounds them.
\<close>

datatype number = Finite rat | PosInfinity | NegInfinity | NotANumber

fun negate :: "number \<Rightarrow> number" where
  "negate (Finite x) = Finite (- x)"
| "negate PosInfinity = NegInfinity"
| "negate NegInfinity = PosInfinity"
| "negate NotANumber = NotANumber"

text \<open>\<open>x < y\<close> on numbers; a comparison with \<open>NaN\<close> is false.\<close>

fun number_less :: "number \<Rightarrow> number \<Rightarrow> bool" where
  "number_less (Finite x) (Finite y) = (x < y)"
| "number_less (Finite x) PosInfinity = True"
| "number_less NegInfinity (Finite y) = True"
| "number_less NegInfinity PosInfinity = True"
| "number_less x y = False"

text \<open>\<open>m\<close> times ten to the power \<open>k\<close>.\<close>

definition scale :: "nat \<Rightarrow> int \<Rightarrow> rat" where
  "scale m k = (if 0 \<le> k then of_nat m * 10 ^ nat k else of_nat m / 10 ^ nat (- k))"

text \<open>A literal in radix 2, 8 or 16, after its prefix: digits, all of the text.\<close>

definition radix_literal :: "(char \<Rightarrow> nat option) \<Rightarrow> nat \<Rightarrow> string \<Rightarrow> number" where
  "radix_literal val radix ds =
     (case leading_digits val radix 0 False ds of
        (n, seen, rest) \<Rightarrow> if seen \<and> rest = [] then Finite (of_nat n) else NotANumber)"

text \<open>
  An unsigned decimal literal: digits, an optional point and digits (a digit on one side
  of the point at least), an optional exponent; all of the text.
\<close>

definition decimal_literal :: "string \<Rightarrow> number" where
  "decimal_literal u =
     (case leading_digits digit_value 10 0 False u of
        (whole, seen1, r1) \<Rightarrow>
          (case (if take 1 r1 = ''.'' then leading_digits digit_value 10 whole False (drop 1 r1)
                 else (whole, False, r1)) of
             (m, seen2, r2) \<Rightarrow>
               (let places = (if take 1 r1 = ''.'' then length (drop 1 r1) - length r2 else 0)
                in if \<not> (seen1 \<or> seen2) then NotANumber
                   else if r2 = [] then Finite (scale m (- int places))
                   else if take 1 r2 = ''e'' \<or> take 1 r2 = ''E'' then
                     (let r3 = drop 1 r2;
                          r4 = (if take 1 r3 = ''-'' \<or> take 1 r3 = ''+'' then drop 1 r3 else r3)
                      in case leading_digits digit_value 10 0 False r4 of
                           (ex, seen3, r5) \<Rightarrow>
                             if seen3 \<and> r5 = [] then
                               Finite (scale m
                                 ((if take 1 r3 = ''-'' then - int ex else int ex) - int places))
                             else NotANumber)
                   else NotANumber)))"

text \<open>
  The number that a text denotes (\<open>StringToNumber\<close>): white space trimmed, the empty
  text is zero; a literal with prefix \<open>0x\<close>, \<open>0o\<close> or \<open>0b\<close> takes no sign; else
  an optional sign and \<open>Infinity\<close> or a decimal literal.
\<close>

definition string_to_number :: "string \<Rightarrow> number" where
  "string_to_number t =
     (let s = rev (dropWhile white_space (rev (dropWhile white_space t)));
          u = (if take 1 s = ''-'' \<or> take 1 s = ''+'' then drop 1 s else s)
      in if s = [] then Finite 0
         else if hex_prefix s then radix_literal hex_value 16 (drop 2 s)
         else if take 2 s = ''0o'' \<or> take 2 s = ''0O'' then radix_literal octal_value 8 (drop 2 s)
         else if take 2 s = ''0b'' \<or> take 2 s = ''0B'' then radix_literal binary_value 2 (drop 2 s)
         else if u = ''Infinity'' then (if take 1 s = ''-'' then NegInfinity else PosInfinity)
         else if take 1 s = ''-'' then negate (decimal_literal u)
         else decimal_literal u)"

text \<open>
  \<open>ToNumber\<close>, as the comparisons apply it: an object or array is first converted to
  its text, which may throw.
\<close>

fun to_number :: "jsval \<Rightarrow> exn + number" where
  "to_number Undefined = Inr NotANumber"
| "to_number Null = Inr (Finite 0)"
| "to_number (Bool b) = Inr (Finite (if b then 1 else 0))"
| "to_number (Num n) = Inr (Finite (of_int n))"
| "to_number NaN = Inr NotANumber"
| "to_number (Str s) = Inr (string_to_number s)"
| "to_number v = (case to_string v of Inl e \<Rightarrow> Inl e | Inr s \<Rightarrow> Inr (string_to_number s))"

text \<open>
  \<open>x < now\<close> and \<open>x > now\<close> (which \<open>now > x\<close> and \<open>now < x\<close> equal), where
  \<open>now\<close> is \<open>Date.now()\<close>, the number of milliseconds since the epoch: \<open>x\<close> is
  converted to a number, and the two numbers are compared.
\<close>

definition less_than :: "jsval \<Rightarrow> nat \<Rightarrow> exn + bool" where
  "less_than x now =
     (case to_number x of
        Inl e \<Rightarrow> Inl e
      | Inr n \<Rightarrow> Inr (number_less n (Finite (of_int (int now)))))"

definition greater_than :: "jsval \<Rightarrow> nat \<Rightarrow> exn + bool" where
  "greater_than x now =
     (case to_number x of
        Inl e \<Rightarrow> Inl e
      | Inr n \<Rightarrow> Inr (number_less (Finite (of_int (int now))) n))"

text \<open>
  \<open>a * b\<close> and \<open>a + b\<close> on numbers: exact, as the doubles are while the result
  is of magnitude up to \<open>2^53\<close>.
\<close>

fun js_times :: "jsval \<Rightarrow> jsval \<Rightarrow> jsval" where
  "js_times (Num a) (Num b) = Num (a * b)"
| "js_times a b = NaN"

fun js_plus :: "jsval \<Rightarrow> jsval \<Rightarrow> jsval" where
  "js_plus (Num a) (Num b) = Num (a + b)"
| "js_plus a b = NaN"

section \<open>Storage, JSON and the transport\<close>

text \<open>
  \<open>localStorage\<close> maps a key to a text. The client hands every text it reads from
  storage to \<open>JSON.parse\<close> and looks at nothing else of it, so the model keeps of a
  stored text what \<open>JSON.parse\<close> makes of it: \<open>Json v\<close> is a text that denotes the
  value \<open>v\<close>, \<open>Garbage\<close> a text that is not valid JSON, on which \<open>JSON.parse\<close>
  throws a \<open>SyntaxError\<close>.
\<close>

datatype payload = Json jsval | Garbage

text \<open>
  What \<open>JSON.stringify\<close> keeps of a value: \<open>NaN\<close> is written \<open>null\<close>, an
  \<open>undefined\<close> array element is written \<open>null\<close>, a property whose value is
  \<open>undefined\<close> is left out, and so are the named properties of an array.
\<close>

fun json_of :: "jsval \<Rightarrow> jsval"
  and json_elements :: "jsval list \<Rightarrow> jsval list"
  and json_fields :: "(string \<times> jsval) list \<Rightarrow> (string \<times> jsval) list" where
  "json_of (Arr xs ps) = Arr (json_elements xs) []"
| "json_of (Obj fs) = Obj (json_fields fs)"
| "json_of NaN = Null"
| "json_of v = v"
| "json_elements [] = []"
| "json_elements (x # xs) = (if x = Undefined then Null else json_of x) # json_elements xs"
| "json_fields [] = []"
| "json_fields ((k, v) # fs) =
     (if v = Undefined then json_fields fs else (k, json_of v) # json_fields fs)"

text \<open>
  \<open>JSON.stringify(undefined)\<close> is \<open>undefined\<close>, which \<open>JSON.parse\<close> and
  \<open>setItem\<close> both convert to the text \<open>undefined\<close>: not valid JSON.
\<close>

definition JSON_stringify :: "jsval \<Rightarrow> payload" where
  "JSON_stringify v = (if v = Undefined then Garbage else Json (json_of v))"

text \<open>
  The argument of \<open>JSON.parse\<close> is a text or the \<open>null\<close> that \<open>getItem\<close>
  returns for a missing key; \<open>null\<close> is converted to the text \<open>null\<close> and parses.
\<close>

definition JSON_parse :: "payload option \<Rightarrow> exn + jsval" where
  "JSON_parse s =
     (case s of
        None \<Rightarrow> Inr Null
      | Some Garbage \<Rightarrow> Inl SyntaxError
      | Some (Json v) \<Rightarrow> Inr v)"

text \<open>
  The transport (\<open>ADSKSpark.Request\<close>) is a collaborator: the model logs each request
  the client hands to it, and takes the promise it answers with as a parameter.
\<close>

datatype request = GET (url: jsval) (withCredentials: bool) (params: jsval)

record world =
  localStorage :: "string \<rightharpoonup> payload"
  requests :: "request list"

definition getItem :: "string \<Rightarrow> world \<Rightarrow> payload option" where
  "getItem k w = localStorage w k"

definition setItem :: "string \<Rightarrow> payload \<Rightarrow> world \<Rightarrow> world" where
  "setItem k t w = w\<lparr>localStorage := (localStorage w)(k \<mapsto> t)\<rparr>"

definition removeItem :: "string \<Rightarrow> world \<Rightarrow> world" where
  "removeItem k w = w\<lparr>localStorage := (localStorage w)(k := None)\<rparr>"

definition send :: "request \<Rightarrow> world \<Rightarrow> world" where
  "send r w = w\<lparr>requests := requests w @ [r]\<rparr>"

section \<open>The client\<close>

text \<open>
  Each operation takes what it reads from its surroundings as parameters: the
  configuration, the time of the call (\<open>now\<close>), the promise with which the transport
  answers the one request that the operation may make (\<open>answer\<close>) and the time at which
  the handler of that answer runs (\<open>later\<close>). It returns its result with the world it
  leaves. An operation is followed from its call until its promise settles, with no other
  script touching the storage in between.
\<close>

definition GUEST_TOKEN_KEY :: string where
  "GUEST_TOKEN_KEY = ''spark-guest-token''"

definition ACCESS_TOKEN_KEY :: string where
  "ACCESS_TOKEN_KEY = ''spark-access-token''"

record config =
  clientId :: jsval
  apiUrl :: jsval
  guestTokenUrl :: jsval
  accessTokenUrl :: jsval
  refreshTokenUrl :: jsval
  redirectUri :: jsval

text \<open>The variables as the file declares them, before \<open>initialize\<close>.\<close>

definition uninitialized :: config where
  "uninitialized =
     \<lparr>clientId = Str [], apiUrl = Str [], guestTokenUrl = Str [], accessTokenUrl = Str [],
      refreshTokenUrl = Str [], redirectUri = Str []\<rparr>"

text \<open>
  \<open>v && v.k\<close>: \<open>v\<close> itself when it is falsy, else the property, whose read cannot
  throw since a truthy value is neither \<open>null\<close> nor \<open>undefined\<close>.
\<close>

definition and_prop :: "jsval \<Rightarrow> string \<Rightarrow> jsval" where
  "and_prop v k =
     (if truthy v then (case get_prop v k of Inr x \<Rightarrow> x | Inl e \<Rightarrow> Undefined) else v)"

text \<open>\<open>Date.now()\<close> is the number of milliseconds since the epoch.\<close>

definition Date_now :: "nat \<Rightarrow> jsval" where
  "Date_now t = Num (int t)"

text \<open>\<open>now + parseInt(expires_in) * 1000\<close>; the conversion in \<open>parseInt\<close> may throw.\<close>

definition expiry :: "nat \<Rightarrow> jsval \<Rightarrow> exn + jsval" where
  "expiry now expires_in =
     (case parseInt expires_in of
        Inl e \<Rightarrow> Inl e
      | Inr seconds \<Rightarrow> Inr (js_plus (Date_now now) (js_times seconds (Num 1000))))"

text \<open>
  \<open>token && token.expires_at && token.expires_at > now\<close>, the test that
  \<open>isAccessTokenValid\<close> returns and that \<open>getGuestToken\<close> makes before it uses a
  stored token; and the same with \<open><\<close>, on which \<open>isAccessTokenValid\<close> removes the
  token. The comparison is made, and may throw, only when what is before it is truthy.
\<close>

definition unexpired :: "jsval \<Rightarrow> nat \<Rightarrow> exn + bool" where
  "unexpired token now =
     (if truthy (and_prop token ''expires_at'')
      then greater_than (and_prop token ''expires_at'') now
      else Inr False)"

definition expired :: "jsval \<Rightarrow> nat \<Rightarrow> exn + bool" where
  "expired token now =
     (if truthy (and_prop token ''expires_at'')
      then less_than (and_prop token ''expires_at'') now
      else Inr False)"

text \<open>
  \<open>getGuestTokenFromServer\<close>: \<open>answer\<close> is the promise of the transport, \<open>later\<close>
  the time at which its handler runs. What the handler throws rejects the promise that
  \<open>then\<close> returns.
\<close>

definition getGuestTokenFromServer ::
  "config \<Rightarrow> jsval promise \<Rightarrow> nat \<Rightarrow> world \<Rightarrow> jsval promise \<times> world" where
  "getGuestTokenFromServer cfg answer later w =
     (if truthy (guestTokenUrl cfg) then
        (let w1 = send (GET (guestTokenUrl cfg) False Undefined) w in
         case answer of
           Pending \<Rightarrow> (Pending, w1)
         | Rejected e \<Rightarrow> (Rejected e, w1)
         | Resolved data \<Rightarrow>
             (case get_prop data ''expires_in'' of
                Inl e \<Rightarrow> (Rejected e, w1)
              | Inr expires_in \<Rightarrow>
                  (case expiry later expires_in of
                     Inl e \<Rightarrow> (Rejected e, w1)
                   | Inr expires_at \<Rightarrow>
                       (case set_prop data ''expires_at'' expires_at of
                          Inl e \<Rightarrow> (Rejected e, w1)
                        | Inr data1 \<Rightarrow>
                            (let w2 = setItem GUEST_TOKEN_KEY (JSON_stringify data1) w1 in
                             case get_prop data1 ''access_token'' of
                               Inl e \<Rightarrow> (Rejected e, w2)
                             | Inr access_token \<Rightarrow> (Resolved access_token, w2))))))
      else (Rejected (Error ''No Server Implementation''), w))"

text \<open>\<open>completeImplicitLogin\<close> at time \<open>now\<close>: what it returns or throws.\<close>

definition completeImplicitLogin ::
  "jsval \<Rightarrow> jsval \<Rightarrow> nat \<Rightarrow> world \<Rightarrow> (exn + jsval) \<times> world" where
  "completeImplicitLogin accessToken expiresIn now w =
     (case expiry now expiresIn of
        Inl e \<Rightarrow> (Inl e, w)
      | Inr expires_at \<Rightarrow>
          (let data = Obj [(''access_token'', accessToken), (''expires_at'', expires_at)]
           in (get_prop data ''access_token'',
               setItem ACCESS_TOKEN_KEY (JSON_stringify data) w)))"

text \<open>
  \<open>new Error(v)\<close>: the message is the text of \<open>v\<close>, empty for \<open>undefined\<close>; the
  conversion to text may throw.
\<close>

definition new_Error :: "jsval \<Rightarrow> exn + exn" where
  "new_Error v =
     (if v = Undefined then Inr (Error [])
      else (case to_string v of Inl e \<Rightarrow> Inl e | Inr s \<Rightarrow> Inr (Error s)))"

text \<open>
  \<open>completeServerLogin\<close>: \<open>calculated\<close> is what \<open>Helpers.calculateRedirectUri()\<close>
  returns (\<open>Helpers\<close> is another file of the SDK).
\<close>

definition completeServerLogin ::
  "config \<Rightarrow> jsval \<Rightarrow> jsval \<Rightarrow> jsval promise \<Rightarrow> nat \<Rightarrow> world \<Rightarrow> jsval promise \<times> world" where
  "completeServerLogin cfg calculated code answer later w =
     (let params =
            Obj [(''code'', code),
                 (''redirect_uri'',
                  if truthy (redirectUri cfg) then redirectUri cfg else calculated)]
      in if truthy (accessTokenUrl cfg) then
           (let w1 = send (GET (accessTokenUrl cfg) True params) w in
            case answer of
              Pending \<Rightarrow> (Pending, w1)
            | Rejected e \<Rightarrow> (Rejected e, w1)
            | Resolved data \<Rightarrow>
                if truthy (and_prop data ''expires_in'') \<and> truthy (and_prop data ''access_token'')
                then
                  (case get_prop data ''expires_in'' of
                     Inl e \<Rightarrow> (Rejected e, w1)
                   | Inr expires_in \<Rightarrow>
                       (case expiry later expires_in of
                          Inl e \<Rightarrow> (Rejected e, w1)
                        | Inr expires_at \<Rightarrow>
                            (case set_prop data ''expires_at'' expires_at of
                               Inl e \<Rightarrow> (Rejected e, w1)
                             | Inr data1 \<Rightarrow>
                                 (case delete_prop data1 ''refresh_token'' of
                                    Inl e \<Rightarrow> (Rejected e, w1)
                                  | Inr data2 \<Rightarrow>
                                      (let w2 = setItem ACCESS_TOKEN_KEY (JSON_stringify data2) w1
                                       in case get_prop data2 ''access_token'' of
                                            Inl e \<Rightarrow> (Rejected e, w2)
                                          | Inr access_token \<Rightarrow> (Resolved access_token, w2))))))
                else
                  (case get_prop data ''Error'' of
                     Inl e \<Rightarrow> (Rejected e, w1)
                   | Inr err \<Rightarrow>
                       (case new_Error err of
                          Inl e \<Rightarrow> (Rejected e, w1)
                        | Inr error \<Rightarrow> (Rejected error, w1))))
         else (Rejected (Error ''No Server Implementation''), w))"

text \<open>
  \<open>initialize\<close>: \<open>host_prod\<close> and \<open>host_sandbox\<close> are
  \<open>ADSKSpark.Constants.API_HOST_PROD\<close> and \<open>API_HOST_SANDBOX\<close>, constants of
  another file of the SDK.
\<close>

definition option_or_null :: "jsval \<Rightarrow> string \<Rightarrow> jsval" where
  "option_or_null options k =
     (if truthy (and_prop options k) then and_prop options k else Null)"

definition initialize :: "jsval \<Rightarrow> jsval \<Rightarrow> jsval \<Rightarrow> jsval \<Rightarrow> config" where
  "initialize host_prod host_sandbox appKey options =
     \<lparr>clientId = appKey,
      apiUrl =
        (if truthy (and_prop options ''apiRoot'') then and_prop options ''apiRoot''
         else if truthy (and_prop options ''isProduction'') then host_prod else host_sandbox),
      guestTokenUrl = option_or_null options ''guestTokenUrl'',
      accessTokenUrl = option_or_null options ''accessTokenUrl'',
      refreshTokenUrl = option_or_null options ''refreshTokenUrl'',
      redirectUri = option_or_null options ''redirectUri''\<rparr>"

definition logout :: "world \<Rightarrow> world" where
  "logout w = removeItem ACCESS_TOKEN_KEY w"

text \<open>
  \<open>isAccessTokenValid\<close> at time \<open>now\<close>: what it returns or throws, and the world it
  leaves.
\<close>

definition isAccessTokenValid :: "nat \<Rightarrow> world \<Rightarrow> (exn + bool) \<times> world" where
  "isAccessTokenValid now w =
     (case JSON_parse (getItem ACCESS_TOKEN_KEY w) of
        Inl e \<Rightarrow> (Inl e, w)
      | Inr accessToken \<Rightarrow>
          (case expired accessToken now of
             Inl e \<Rightarrow> (Inl e, w)
           | Inr remove \<Rightarrow>
               (let w1 = (if remove then logout w else w)
                in case unexpired accessToken now of
                     Inl e \<Rightarrow> (Inl e, w1)
                   | Inr valid \<Rightarrow> (Inr valid, w1))))"

definition getAccessTokenObject :: "world \<Rightarrow> exn + jsval" where
  "getAccessTokenObject w =
     (case JSON_parse (getItem ACCESS_TOKEN_KEY w) of
        Inl e \<Rightarrow> Inl e
      | Inr accessToken \<Rightarrow>
          Inr (if truthy (and_prop accessToken ''access_token'') then accessToken else Null))"

definition getAccessToken :: "world \<Rightarrow> exn + jsval" where
  "getAccessToken w =
     (case JSON_parse (getItem ACCESS_TOKEN_KEY w) of
        Inl e \<Rightarrow> Inl e
      | Inr accessToken \<Rightarrow>
          (if truthy (and_prop accessToken ''access_token'')
           then get_prop accessToken ''access_token'' else Inr Null))"

text \<open>
  \<open>getGuestToken\<close> at time \<open>now\<close>: it throws, or returns a promise. \<open>answer\<close> and
  \<open>later\<close> are for the request it may make.
\<close>

definition getGuestToken ::
  "config \<Rightarrow> jsval promise \<Rightarrow> nat \<Rightarrow> nat \<Rightarrow> world \<Rightarrow> (exn + jsval promise) \<times> world" where
  "getGuestToken cfg answer now later w =
     (case JSON_parse (getItem GUEST_TOKEN_KEY w) of
        Inl e \<Rightarrow> (Inl e, w)
      | Inr guest \<Rightarrow>
          (case (if \<not> truthy guest then JSON_parse (getItem ACCESS_TOKEN_KEY w) else Inr guest) of
             Inl e \<Rightarrow> (Inl e, w)
           | Inr token \<Rightarrow>
               (case unexpired token now of
                  Inl e \<Rightarrow> (Inl e, w)
                | Inr valid \<Rightarrow>
                    if valid then
                      (case get_prop token ''access_token'' of
                         Inl e \<Rightarrow> (Inl e, w)
                       | Inr access_token \<Rightarrow> (Inr (Resolved access_token), w))
                    else
                      (case getGuestTokenFromServer cfg answer later w of
                         (p, w1) \<Rightarrow> (Inr p, w1)))))"

definition refreshAccessToken ::
  "config \<Rightarrow> jsval promise \<Rightarrow> nat \<Rightarrow> world \<Rightarrow> jsval promise \<times> world" where
  "refreshAccessToken cfg answer later w =
     (if truthy (refreshTokenUrl cfg) then
        (let w1 = send (GET (refreshTokenUrl cfg) True Undefined) w in
         case answer of
           Pending \<Rightarrow> (Pending, w1)
         | Rejected e \<Rightarrow> (Rejected e, w1)
         | Resolved data \<Rightarrow>
             (case get_prop data ''Error'' of
                Inl e \<Rightarrow> (Rejected e, w1)
              | Inr err \<Rightarrow>
                  if \<not> truthy err then
                    (case get_prop data ''expires_in'' of
                       Inl e \<Rightarrow> (Rejected e, w1)
                     | Inr expires_in \<Rightarrow>
                         (case expiry later expires_in of
                            Inl e \<Rightarrow> (Rejected e, w1)
                          | Inr expires_at \<Rightarrow>
                              (case set_prop data ''expires_at'' expires_at of
                                 Inl e \<Rightarrow> (Rejected e, w1)
                               | Inr data1 \<Rightarrow>
                                   (case JSON_parse (Some (JSON_stringify data1)) of
                                      Inl e \<Rightarrow> (Rejected e, w1)
                                    | Inr clonedData \<Rightarrow>
                                        (case delete_prop clonedData ''refresh_token'' of
                                           Inl e \<Rightarrow> (Rejected e, w1)
                                         | Inr clonedData1 \<Rightarrow>
                                             (Resolved data1,
                                              setItem ACCESS_TOKEN_KEY
                                                (JSON_stringify clonedData1) w1))))))
                  else (Resolved data, w1)))
      else (Rejected (Error ''No Server Implementation''), w))"

text \<open>\<open>'Bearer ' + v\<close>: the conversion of \<open>v\<close> to a text may throw.\<close>

definition bearer :: "jsval \<Rightarrow> exn + jsval" where
  "bearer v = (case to_string v of Inl e \<Rightarrow> Inl e | Inr s \<Rightarrow> Inr (Str (''Bearer '' @ s)))"

definition formatAuthHeader :: "jsval \<Rightarrow> exn + jsval" where
  "formatAuthHeader token =
     (if truthy token then
        (case get_prop token ''access_token'' of
           Inl e \<Rightarrow> Inl e
         | Inr access_token \<Rightarrow> bearer access_token)
      else Inr Null)"

text \<open>
  \<open>authorizedApiRequest\<close> hands the transport a function that returns the promise of
  the authorization header; this is that function. The promise is made by
  \<open>new Promise(function (resolve) {...})\<close>: it is rejected when the body throws,
  resolved when \<open>resolve\<close> is called, and stays pending otherwise. The body calls
  \<open>resolve\<close> from a \<open>then\<close> of the refresh, with one argument: nothing is called when the
  refresh is rejected, or when that handler throws. The token is compared with the clock
  only when a refresh URL is configured and the token has a truthy \<open>expires_at\<close>.
\<close>

definition authorizedApiRequest ::
  "config \<Rightarrow> jsval promise \<Rightarrow> nat \<Rightarrow> nat \<Rightarrow> world \<Rightarrow> jsval promise \<times> world" where
  "authorizedApiRequest cfg answer now later w =
     (case JSON_parse (getItem ACCESS_TOKEN_KEY w) of
        Inl e \<Rightarrow> (Rejected e, w)
      | Inr token \<Rightarrow>
          if truthy token then
            (case (if truthy (refreshTokenUrl cfg) \<and> truthy (and_prop token ''expires_at'')
                   then less_than (and_prop token ''expires_at'') now
                   else Inr False) of
               Inl e \<Rightarrow> (Rejected e, w)
             | Inr refresh \<Rightarrow>
                 if refresh then
                   (case refreshAccessToken cfg answer later w of
                      (Resolved refreshedToken, w1) \<Rightarrow>
                        (case formatAuthHeader refreshedToken of
                           Inl e \<Rightarrow> (Pending, w1)
                         | Inr header \<Rightarrow> (Resolved header, w1))
                    | (Rejected e, w1) \<Rightarrow> (Pending, w1)
                    | (Pending, w1) \<Rightarrow> (Pending, w1))
                 else
                   (case formatAuthHeader token of
                      Inl e \<Rightarrow> (Rejected e, w)
                    | Inr header \<Rightarrow> (Resolved header, w)))
          else (Resolved Null, w))"

text \<open>
  The same for \<open>authorizedAsGuestApiRequest\<close>: the body throws what \<open>getGuestToken\<close>
  throws; \<open>resolve\<close> is called from a \<open>then\<close> of its promise, unless the handler
  throws in making the header.
\<close>

definition authorizedAsGuestApiRequest ::
  "config \<Rightarrow> jsval promise \<Rightarrow> nat \<Rightarrow> nat \<Rightarrow> world \<Rightarrow> jsval promise \<times> world" where
  "authorizedAsGuestApiRequest cfg answer now later w =
     (case getGuestToken cfg answer now later w of
        (Inl e, w1) \<Rightarrow> (Rejected e, w1)
      | (Inr (Resolved token), w1) \<Rightarrow>
          (case (if truthy token then bearer token else Inr Null) of
             Inl e \<Rightarrow> (Pending, w1)
           | Inr header \<Rightarrow> (Resolved header, w1))
      | (Inr (Rejected e), w1) \<Rightarrow> (Pending, w1)
      | (Inr Pending, w1) \<Rightarrow> (Pending, w1))"

section \<open>Notions of the specification\<close>

text \<open>A value that is not an object or an array: \<open>null\<close>, a boolean, a number, a text.\<close>

definition primitive :: "jsval \<Rightarrow> bool" where
  "primitive v = (case v of Arr xs ps \<Rightarrow> False | Obj fs \<Rightarrow> False | _ \<Rightarrow> True)"

text \<open>
  What a slot holds is nothing, or valid JSON whose expiry, if it has one, is a primitive
  value; and the same with the access token a primitive value too.
\<close>

definition plain_expiry :: "payload option \<Rightarrow> bool" where
  "plain_expiry p =
     (case p of
        None \<Rightarrow> True
      | Some Garbage \<Rightarrow> False
      | Some (Json v) \<Rightarrow> primitive (and_prop v ''expires_at''))"

definition plain_record :: "payload option \<Rightarrow> bool" where
  "plain_record p =
     (case p of
        None \<Rightarrow> True
      | Some Garbage \<Rightarrow> False
      | Some (Json v) \<Rightarrow>
          primitive (and_prop v ''expires_at'') \<and> primitive (and_prop v ''access_token''))"

text \<open>The value has a property of its own named \<open>k\<close>.\<close>

definition has_field :: "jsval \<Rightarrow> string \<Rightarrow> bool" where
  "has_field v k =
     (case v of Obj fs \<Rightarrow> k \<in> fst ` set fs | Arr xs ps \<Rightarrow> k \<in> fst ` set ps | _ \<Rightarrow> False)"

text \<open>
  A stored value that is valid JSON and not a token record: \<open>null\<close>, a boolean, a
  number, a string, or an object or array with neither an access token nor an expiry.
\<close>

definition not_a_record :: "jsval \<Rightarrow> bool" where
  "not_a_record v = (\<not> has_field v ''access_token'' \<and> \<not> has_field v ''expires_at'')"

text \<open>
  From the world \<open>w\<close> to the world \<open>w1\<close> the access-token slot was left as it was, or
  it now holds a payload with no refresh-token field.
\<close>

definition without_refresh_token :: "world \<Rightarrow> world \<Rightarrow> bool" where
  "without_refresh_token w w1 =
     (localStorage w1 ACCESS_TOKEN_KEY = localStorage w ACCESS_TOKEN_KEY \<or>
      (\<exists>v. localStorage w1 ACCESS_TOKEN_KEY = Some (Json v) \<and> \<not> has_field v ''refresh_token''))"

section \<open>Properties\<close>

subsection \<open>Numbers and their texts\<close>

text \<open>\<open>parseInt\<close> reads back the decimal text of a number.\<close>

lemma digit_values:
  "digit_value CHR ''0'' = Some 0" "digit_value CHR ''1'' = Some 1"
  "digit_value CHR ''2'' = Some 2" "digit_value CHR ''3'' = Some 3"
  "digit_value CHR ''4'' = Some 4" "digit_value CHR ''5'' = Some 5"
  "digit_value CHR ''6'' = Some 6" "digit_value CHR ''7'' = Some 7"
  "digit_value CHR ''8'' = Some 8" "digit_value CHR ''9'' = Some 9"
  by code_simp+

lemma below_ten: "d < 10 \<Longrightarrow> d \<in> {0, 1, 2, 3, 4, 5, 6, 7, 8, 9 :: nat}"
  by auto

lemma digit_char: "d < 10 \<Longrightarrow> digit_value (''0123456789'' ! d) = Some d"
  using below_ten [of d] by (auto simp add: digit_values)

lemma digit_char_in: "d < 10 \<Longrightarrow> ''0123456789'' ! d \<in> set ''0123456789''"
  using below_ten [of d] by auto

lemma digits_set: "set (digits m) \<subseteq> set ''0123456789''"
proof (induction m rule: digits.induct)
  case (1 n)
  show ?case
  proof (cases "n < 10")
    case True
    then show ?thesis using digit_char_in [of n] by (subst digits.simps) simp
  next
    case False
    then show ?thesis
      using 1 digit_char_in [of "n mod 10"] by (subst digits.simps) simp
  qed
qed

lemma digits_not_empty: "digits m \<noteq> []"
  by (subst digits.simps) simp

lemma leading_digits_digits:
  "leading_digits digit_value 10 acc seen (digits m @ rest) =
   leading_digits digit_value 10 (acc * 10 ^ length (digits m) + m) True rest"
proof (induction m arbitrary: acc seen rest rule: digits.induct)
  case (1 n)
  show ?case
  proof (cases "n < 10")
    case True
    then have d: "digits n = [''0123456789'' ! n]" by (subst digits.simps) simp
    show ?thesis using True by (simp add: d digit_char)
  next
    case False
    then have d: "digits n = digits (n div 10) @ [''0123456789'' ! (n mod 10)]"
      by (subst digits.simps) simp
    have "leading_digits digit_value 10 acc seen (digits n @ rest) =
          leading_digits digit_value 10 acc seen
            (digits (n div 10) @ (''0123456789'' ! (n mod 10)) # rest)"
      by (simp add: d)
    also have "\<dots> =
          leading_digits digit_value 10 (acc * 10 ^ length (digits (n div 10)) + n div 10) True
            ((''0123456789'' ! (n mod 10)) # rest)"
      using 1 [OF False] by simp
    also have "\<dots> =
          leading_digits digit_value 10
            ((acc * 10 ^ length (digits (n div 10)) + n div 10) * 10 + n mod 10) True rest"
      by (simp add: digit_char)
    also have "(acc * 10 ^ length (digits (n div 10)) + n div 10) * 10 + n mod 10 =
          acc * 10 ^ length (digits n) + n"
      by (simp add: d algebra_simps)
    finally show ?thesis .
  qed
qed

lemma digits_head:
  "\<exists>c cs. digits m = c # cs \<and> c \<in> set ''0123456789'' \<and> set cs \<subseteq> set ''0123456789''"
  using digits_set [of m] digits_not_empty [of m] by (cases "digits m") auto

lemma parseInt_Num: "0 \<le> n \<Longrightarrow> parseInt (Num n) = Inr (Num n)"
proof -
  assume n: "0 \<le> n"
  define s where "s = digits (nat n)"
  obtain c cs where d: "s = c # cs" and c: "c \<in> set ''0123456789''"
    and cs: "set cs \<subseteq> set ''0123456789''"
    using digits_head s_def by blast
  have ws: "dropWhile white_space s = s"
    using c by (auto simp add: d white_space_def)
  have sign: "take (Suc 0) s \<noteq> ''-''" "take (Suc 0) s \<noteq> ''+''"
    using c by (auto simp add: d)
  have hex: "\<not> hex_prefix s"
    using cs by (cases cs) (auto simp add: d hex_prefix_def)
  have ld: "leading_digits digit_value 10 0 False s = (nat n, True, [])"
    using leading_digits_digits [of 0 False "nat n" "[]"] by (simp add: s_def)
  have "to_string (Num n) = Inr s"
    using n by (simp add: show_int_def s_def)
  then show ?thesis
    using n by (simp add: parseInt_def ws sign hex ld)
qed

lemma expiry_Num: "0 \<le> n \<Longrightarrow> expiry t (Num n) = Inr (Num (int t + n * 1000))"
  by (simp add: expiry_def parseInt_Num Date_now_def)

subsection \<open>Auxiliary facts\<close>

lemma get_prop_truthy: "truthy v \<Longrightarrow> \<exists>x. get_prop v k = Inr x"
  by (cases v) simp_all

lemma and_prop_Obj [simp]: "and_prop (Obj fs) k = lookup fs k"
  by (simp add: and_prop_def)

lemma and_prop_truthy: "truthy (and_prop v k) \<Longrightarrow> truthy v"
  by (auto simp add: and_prop_def split: if_splits)

lemma and_prop_get: "truthy v \<Longrightarrow> get_prop v k = Inr (and_prop v k)"
  by (cases v) (simp_all add: and_prop_def)

lemma lookup_missing: "k \<notin> fst ` set fs \<Longrightarrow> lookup fs k = Undefined"
proof -
  assume "k \<notin> fst ` set fs"
  then have "map_of fs k = None" by (simp add: map_of_eq_None_iff)
  then show ?thesis by (simp add: lookup_def)
qed

lemma and_prop_missing: "\<not> has_field v k \<Longrightarrow> \<not> truthy (and_prop v k)"
  by (cases v) (simp_all add: and_prop_def has_field_def lookup_missing)

lemma to_number_primitive: "primitive v \<Longrightarrow> \<exists>n. to_number v = Inr n"
  by (cases v) (simp_all add: primitive_def)

lemma to_string_primitive: "primitive v \<Longrightarrow> \<exists>s. to_string v = Inr s"
  by (cases v) (simp_all add: primitive_def)

lemma less_than_Num [simp]: "less_than (Num e) now = Inr (e < int now)"
  by (simp add: less_than_def del: of_int_of_nat_eq)

lemma greater_than_Num [simp]: "greater_than (Num e) now = Inr (int now < e)"
  by (simp add: greater_than_def del: of_int_of_nat_eq)

lemma unexpired_Num:
  "lookup fs ''expires_at'' = Num e \<Longrightarrow> unexpired (Obj fs) now = Inr (int now < e)"
  by (auto simp add: unexpired_def)

lemma expired_Num:
  "lookup fs ''expires_at'' = Num e \<Longrightarrow> expired (Obj fs) now = Inr (e \<noteq> 0 \<and> e < int now)"
  by (auto simp add: expired_def)

lemma unexpired_plain: "primitive (and_prop v ''expires_at'') \<Longrightarrow> \<exists>b. unexpired v now = Inr b"
  using to_number_primitive [of "and_prop v ''expires_at''"]
  by (auto simp add: unexpired_def greater_than_def)

lemma expired_plain: "primitive (and_prop v ''expires_at'') \<Longrightarrow> \<exists>b. expired v now = Inr b"
  using to_number_primitive [of "and_prop v ''expires_at''"]
  by (auto simp add: expired_def less_than_def)

lemma unexpired_missing: "\<not> truthy (and_prop v ''expires_at'') \<Longrightarrow> unexpired v now = Inr False"
  by (simp add: unexpired_def)

lemma expired_missing: "\<not> truthy (and_prop v ''expires_at'') \<Longrightarrow> expired v now = Inr False"
  by (simp add: expired_def)

lemma unexpired_truthy: "unexpired token now = Inr True \<Longrightarrow> truthy token"
  by (auto simp add: unexpired_def dest: and_prop_truthy split: if_splits)

lemma keys_differ [simp]:
  "GUEST_TOKEN_KEY \<noteq> ACCESS_TOKEN_KEY" "ACCESS_TOKEN_KEY \<noteq> GUEST_TOKEN_KEY"
  by (simp_all add: GUEST_TOKEN_KEY_def ACCESS_TOKEN_KEY_def)

lemma plain_expiry_parse:
  "plain_expiry p \<Longrightarrow> \<exists>v. JSON_parse p = Inr v \<and> primitive (and_prop v ''expires_at'')"
  by (auto simp add: plain_expiry_def JSON_parse_def primitive_def and_prop_def
      split: option.splits payload.splits)

lemma JSON_parse_valid: "s \<noteq> Some Garbage \<Longrightarrow> \<exists>v. JSON_parse s = Inr v"
  by (auto simp add: JSON_parse_def split: option.splits payload.splits)

text \<open>Once the token is chosen, and its expiry is no object, nothing throws.\<close>

lemma guest_token_use:
  assumes "primitive (and_prop token ''expires_at'')"
  shows "fst (case unexpired token now of
                Inl e \<Rightarrow> (Inl e, w)
              | Inr valid \<Rightarrow>
                  if valid then
                    (case get_prop token ''access_token'' of
                       Inl e \<Rightarrow> (Inl e, w)
                     | Inr access_token \<Rightarrow> (Inr (Resolved access_token), w))
                  else
                    (case getGuestTokenFromServer cfg answer later w of
                       (p, w1) \<Rightarrow> (Inr p, w1))) \<noteq> Inl e"
proof -
  obtain b where b: "unexpired token now = Inr b"
    using unexpired_plain [OF assms] by blast
  show ?thesis
  proof (cases b)
    case True
    with b have "unexpired token now = Inr True" by simp
    then obtain x where "get_prop token ''access_token'' = Inr x"
      using unexpired_truthy get_prop_truthy by blast
    with True b show ?thesis by simp
  next
    case False
    with b show ?thesis by (simp split: prod.splits)
  qed
qed

lemma getGuestToken_returns:
  assumes "plain_expiry (localStorage w GUEST_TOKEN_KEY)"
    and "plain_expiry (localStorage w ACCESS_TOKEN_KEY)"
  shows "fst (getGuestToken cfg answer now later w) \<noteq> Inl e"
proof -
  obtain gv where gv: "JSON_parse (localStorage w GUEST_TOKEN_KEY) = Inr gv"
    and gp: "primitive (and_prop gv ''expires_at'')"
    using plain_expiry_parse [OF assms(1)] by blast
  obtain av where av: "JSON_parse (localStorage w ACCESS_TOKEN_KEY) = Inr av"
    and ap: "primitive (and_prop av ''expires_at'')"
    using plain_expiry_parse [OF assms(2)] by blast
  show ?thesis
    by (cases "truthy gv")
      (simp_all add: getGuestToken_def getItem_def gv av guest_token_use [OF gp]
        guest_token_use [OF ap])
qed

lemma isAccessTokenValid_returns:
  assumes "plain_expiry (localStorage w ACCESS_TOKEN_KEY)"
  shows "fst (isAccessTokenValid now w) \<noteq> Inl e"
proof -
  obtain av where av: "JSON_parse (localStorage w ACCESS_TOKEN_KEY) = Inr av"
    and ap: "primitive (and_prop av ''expires_at'')"
    using plain_expiry_parse [OF assms] by blast
  obtain r where r: "expired av now = Inr r" using expired_plain [OF ap] by blast
  obtain b where b: "unexpired av now = Inr b" using unexpired_plain [OF ap] by blast
  show ?thesis by (simp add: isAccessTokenValid_def getItem_def av r b Let_def)
qed

lemma getAccessToken_returns:
  assumes "localStorage w ACCESS_TOKEN_KEY \<noteq> Some Garbage"
  shows "getAccessTokenObject w \<noteq> Inl e \<and> getAccessToken w \<noteq> Inl e"
proof -
  obtain av where av: "JSON_parse (localStorage w ACCESS_TOKEN_KEY) = Inr av"
    using JSON_parse_valid [OF assms] by blast
  have "getAccessToken w \<noteq> Inl e"
  proof (cases "truthy (and_prop av ''access_token'')")
    case True
    then obtain x where "get_prop av ''access_token'' = Inr x"
      using and_prop_truthy get_prop_truthy by blast
    then show ?thesis by (simp add: getAccessToken_def getItem_def av)
  next
    case False
    then show ?thesis by (simp add: getAccessToken_def getItem_def av)
  qed
  then show ?thesis by (simp add: getAccessTokenObject_def getItem_def av)
qed

subsection \<open>Malformed storage\<close>

text \<open>
  C1, as the code has it. The claim: when the persisted value of a slot is malformed
  (not valid JSON, or not a well-formed record), every read operation treats it as absent
  and never throws. The code parses every stored text with \<open>JSON.parse\<close>, compares
  the expiry with the clock by \<open><\<close> and \<open>>\<close>, and catches nothing. What holds:
  \<open>getAccessTokenObject\<close> and \<open>getAccessToken\<close> do not throw when the access-token
  slot holds valid JSON or nothing; \<open>isAccessTokenValid\<close> and \<open>getGuestToken\<close> do
  not throw when, besides, the expiry of what is stored is no object or array. When the
  access-token slot holds a value that is not a token record (\<open>null\<close>, a boolean, a
  number, a string, an object with neither an access token nor an expiry), the three
  reads of that slot answer as for an absent slot (\<open>false\<close>, \<open>null\<close>, \<open>null\<close>) and leave
  the world as it was. \<open>getGuestToken\<close> treats a falsy value in the guest-token slot as
  absent (it falls back to a valid access token); a truthy value that is not a token
  record it does not treat as absent: there is no fallback, it asks the server for a guest
  token.
\<close>

theorem valid_json_reads_never_throw:
  "(localStorage w ACCESS_TOKEN_KEY \<noteq> Some Garbage \<longrightarrow>
      (\<forall>e. getAccessTokenObject w \<noteq> Inl e) \<and> (\<forall>e. getAccessToken w \<noteq> Inl e)) \<and>
   (plain_expiry (localStorage w ACCESS_TOKEN_KEY) \<longrightarrow>
      (\<forall>e. fst (isAccessTokenValid now w) \<noteq> Inl e)) \<and>
   (plain_expiry (localStorage w GUEST_TOKEN_KEY) \<and>
    plain_expiry (localStorage w ACCESS_TOKEN_KEY) \<longrightarrow>
      (\<forall>e. fst (getGuestToken cfg answer now later w) \<noteq> Inl e)) \<and>
   (\<forall>v. localStorage w ACCESS_TOKEN_KEY = Some (Json v) \<and> not_a_record v \<longrightarrow>
      isAccessTokenValid now w = (Inr False, w) \<and>
      getAccessTokenObject w = Inr Null \<and>
      getAccessToken w = Inr Null) \<and>
   (\<forall>v fs x. localStorage w GUEST_TOKEN_KEY = Some (Json v) \<and> \<not> truthy v \<and>
      localStorage w ACCESS_TOKEN_KEY = Some (Json (Obj fs)) \<and>
      lookup fs ''expires_at'' = Num x \<and> int now < x \<longrightarrow>
      getGuestToken cfg answer now later w =
        (Inr (Resolved (lookup fs ''access_token'')), w)) \<and>
   (\<forall>v. localStorage w GUEST_TOKEN_KEY = Some (Json v) \<and> truthy v \<and> not_a_record v \<longrightarrow>
      getGuestToken cfg answer now later w =
        (case getGuestTokenFromServer cfg answer later w of (p, w1) \<Rightarrow> (Inr p, w1)))"
proof -
  have 1: "localStorage w ACCESS_TOKEN_KEY \<noteq> Some Garbage \<longrightarrow>
      (\<forall>e. getAccessTokenObject w \<noteq> Inl e) \<and> (\<forall>e. getAccessToken w \<noteq> Inl e)"
    using getAccessToken_returns by blast
  have 2: "plain_expiry (localStorage w ACCESS_TOKEN_KEY) \<longrightarrow>
      (\<forall>e. fst (isAccessTokenValid now w) \<noteq> Inl e)"
    using isAccessTokenValid_returns by blast
  have 3: "plain_expiry (localStorage w GUEST_TOKEN_KEY) \<and>
    plain_expiry (localStorage w ACCESS_TOKEN_KEY) \<longrightarrow>
      (\<forall>e. fst (getGuestToken cfg answer now later w) \<noteq> Inl e)"
    using getGuestToken_returns by blast
  have 4: "\<forall>v. localStorage w ACCESS_TOKEN_KEY = Some (Json v) \<and> not_a_record v \<longrightarrow>
      isAccessTokenValid now w = (Inr False, w) \<and>
      getAccessTokenObject w = Inr Null \<and>
      getAccessToken w = Inr Null"
    by (simp add: isAccessTokenValid_def getAccessTokenObject_def getAccessToken_def
        getItem_def JSON_parse_def not_a_record_def and_prop_missing
        unexpired_missing expired_missing)
  have 5: "\<forall>v fs x. localStorage w GUEST_TOKEN_KEY = Some (Json v) \<and> \<not> truthy v \<and>
      localStorage w ACCESS_TOKEN_KEY = Some (Json (Obj fs)) \<and>
      lookup fs ''expires_at'' = Num x \<and> int now < x \<longrightarrow>
      getGuestToken cfg answer now later w =
        (Inr (Resolved (lookup fs ''access_token'')), w)"
    by (simp add: getGuestToken_def getItem_def JSON_parse_def unexpired_Num)
  have 6: "\<forall>v. localStorage w GUEST_TOKEN_KEY = Some (Json v) \<and> truthy v \<and> not_a_record v \<longrightarrow>
      getGuestToken cfg answer now later w =
        (case getGuestTokenFromServer cfg answer later w of (p, w1) \<Rightarrow> (Inr p, w1))"
    by (simp add: getGuestToken_def getItem_def JSON_parse_def not_a_record_def
        and_prop_missing unexpired_missing)
  from 1 2 3 4 5 6 show ?thesis by blast
qed

text \<open>
  At time 2000: the access-token slot holds the JSON string \<open>"abc"\<close>; then a user
  token that is good until 5000, beside a guest-token slot that holds \<open>null\<close>, and beside
  one that holds the empty object, with no guest-token server configured.
\<close>

theorem valid_json_reads_never_throw_witness:
  "isAccessTokenValid 2000
     \<lparr>localStorage =
        [ACCESS_TOKEN_KEY \<mapsto> Json (Str ''abc'')],
      requests = []\<rparr> =
     (Inr False, \<lparr>localStorage =
        [ACCESS_TOKEN_KEY \<mapsto> Json (Str ''abc'')],
      requests = []\<rparr>) \<and>
   getAccessTokenObject
     \<lparr>localStorage =
        [ACCESS_TOKEN_KEY \<mapsto> Json (Str ''abc'')],
      requests = []\<rparr> = Inr Null \<and>
   getAccessToken
     \<lparr>localStorage =
        [ACCESS_TOKEN_KEY \<mapsto> Json (Str ''abc'')],
      requests = []\<rparr> = Inr Null \<and>
   fst (getGuestToken uninitialized Pending 2000 3000
     \<lparr>localStorage =
        [ACCESS_TOKEN_KEY \<mapsto> Json (Str ''abc'')],
      requests = []\<rparr>) \<noteq>
     Inl SyntaxError \<and>
   getGuestToken uninitialized Pending 2000 3000
     \<lparr>localStorage =
        [GUEST_TOKEN_KEY \<mapsto> Json Null, ACCESS_TOKEN_KEY \<mapsto> Json (Obj [(''access_token'', Str ''user''), (''expires_at'', Num 5000)])],
      requests = []\<rparr> =
     (Inr (Resolved (Str ''user'')),
      \<lparr>localStorage =
        [GUEST_TOKEN_KEY \<mapsto> Json Null, ACCESS_TOKEN_KEY \<mapsto> Json (Obj [(''access_token'', Str ''user''), (''expires_at'', Num 5000)])],
      requests = []\<rparr>) \<and>
   getGuestToken uninitialized Pending 2000 3000
     \<lparr>localStorage =
        [GUEST_TOKEN_KEY \<mapsto> Json (Obj []),
         ACCESS_TOKEN_KEY \<mapsto> Json (Obj [(''access_token'', Str ''user''), (''expires_at'', Num 5000)])],
      requests = []\<rparr> =
     (Inr (Rejected (Error ''No Server Implementation'')),
      \<lparr>localStorage =
        [GUEST_TOKEN_KEY \<mapsto> Json (Obj []),
         ACCESS_TOKEN_KEY \<mapsto> Json (Obj [(''access_token'', Str ''user''), (''expires_at'', Num 5000)])],
      requests = []\<rparr>)"
  using
    valid_json_reads_never_throw
      [where w = "\<lparr>localStorage =
        [ACCESS_TOKEN_KEY \<mapsto> Json (Str ''abc'')],
      requests = []\<rparr>"
        and now = 2000 and cfg = uninitialized and answer = Pending and later = 3000]
    valid_json_reads_never_throw
      [where w = "\<lparr>localStorage =
        [GUEST_TOKEN_KEY \<mapsto> Json Null, ACCESS_TOKEN_KEY \<mapsto> Json (Obj [(''access_token'', Str ''user''), (''expires_at'', Num 5000)])],
      requests = []\<rparr>"
        and now = 2000 and cfg = uninitialized and answer = Pending and later = 3000]
    valid_json_reads_never_throw
      [where w = "\<lparr>localStorage =
        [GUEST_TOKEN_KEY \<mapsto> Json (Obj []),
         ACCESS_TOKEN_KEY \<mapsto> Json (Obj [(''access_token'', Str ''user''), (''expires_at'', Num 5000)])],
      requests = []\<rparr>"
        and now = 2000 and cfg = uninitialized and answer = Pending and later = 3000]
  by (simp add: plain_expiry_def primitive_def and_prop_def not_a_record_def has_field_def
      lookup_def getGuestTokenFromServer_def uninitialized_def)

text \<open>
  The claim as stated fails. With a stored text that is not valid JSON (a lone opening
  brace, say), each of the four reads throws the \<open>SyntaxError\<close> of \<open>JSON.parse\<close>.
  With the valid JSON \<open>{"access_token":"tok","expires_at":{"toString":0}}\<close> stored, the
  comparison of the expiry with the clock throws a \<open>TypeError\<close> in
  \<open>isAccessTokenValid\<close> and in \<open>getGuestToken\<close>. And beside a user token that is
  good until 5000, \<open>getGuestToken\<close> resolves to the user token when the guest-token
  slot is absent, but not when it holds the empty object, valid JSON that is no record.
\<close>

theorem malformed_storage_counterexample:
  "fst (isAccessTokenValid 0
      \<lparr>localStorage =
        [ACCESS_TOKEN_KEY \<mapsto> Garbage],
      requests = []\<rparr>) = Inl SyntaxError \<and>
   getAccessTokenObject
      \<lparr>localStorage =
        [ACCESS_TOKEN_KEY \<mapsto> Garbage],
      requests = []\<rparr> = Inl SyntaxError \<and>
   getAccessToken
      \<lparr>localStorage =
        [ACCESS_TOKEN_KEY \<mapsto> Garbage],
      requests = []\<rparr> = Inl SyntaxError \<and>
   fst (getGuestToken uninitialized Pending 0 0
      \<lparr>localStorage =
        [GUEST_TOKEN_KEY \<mapsto> Garbage],
      requests = []\<rparr>) = Inl SyntaxError \<and>
   fst (isAccessTokenValid 2000
      \<lparr>localStorage =
        [ACCESS_TOKEN_KEY \<mapsto> Json (Obj [(''access_token'', Str ''tok''), (''expires_at'', Obj [(''toString'', Num 0)])])],
      requests = []\<rparr>) =
     Inl TypeError \<and>
   fst (getGuestToken uninitialized Pending 2000 3000
      \<lparr>localStorage =
        [GUEST_TOKEN_KEY \<mapsto> Json (Obj [(''access_token'', Str ''tok''), (''expires_at'', Obj [(''toString'', Num 0)])])],
      requests = []\<rparr>) =
     Inl TypeError \<and>
   fst (getGuestToken uninitialized Pending 2000 3000
      \<lparr>localStorage =
        [ACCESS_TOKEN_KEY \<mapsto> Json (Obj [(''access_token'', Str ''user''), (''expires_at'', Num 5000)])],
      requests = []\<rparr>) =
     Inr (Resolved (Str ''user'')) \<and>
   fst (getGuestToken uninitialized Pending 2000 3000
      \<lparr>localStorage =
        [GUEST_TOKEN_KEY \<mapsto> Json (Obj []),
         ACCESS_TOKEN_KEY \<mapsto> Json (Obj [(''access_token'', Str ''user''), (''expires_at'', Num 5000)])],
      requests = []\<rparr>) =
     Inr (Rejected (Error ''No Server Implementation''))"
  by (simp add: isAccessTokenValid_def getAccessTokenObject_def getAccessToken_def
      getGuestToken_def getGuestTokenFromServer_def getItem_def JSON_parse_def
      expired_def unexpired_def less_than_def greater_than_def own_def lookup_def
      uninitialized_def)

subsection \<open>Expiry\<close>

text \<open>
  C2, as the code has it. The claim: a read of the access-token slot by
  \<open>getAccessTokenObject\<close> or \<open>getAccessToken\<close> returns absent for a record past its
  expiry, and removes the record. These two reads do not look at the expiry: for a stored
  record they return the record, or its access token, whenever the access token is truthy,
  and they write nothing. It is \<open>isAccessTokenValid\<close> that reports a record whose
  (non-zero) expiry timestamp is before the current time invalid and removes it.
\<close>

theorem expired_access_token:
  assumes "localStorage w ACCESS_TOKEN_KEY = Some (Json (Obj fs))"
    and "lookup fs ''expires_at'' = Num e" and "e \<noteq> 0" and "e < int now"
  shows "isAccessTokenValid now w = (Inr False, removeItem ACCESS_TOKEN_KEY w) \<and>
         getAccessTokenObject w =
           Inr (if truthy (lookup fs ''access_token'') then Obj fs else Null) \<and>
         getAccessToken w =
           Inr (if truthy (lookup fs ''access_token'') then lookup fs ''access_token''
                else Null)"
  using assms
  by (simp add: isAccessTokenValid_def getAccessTokenObject_def getAccessToken_def
      getItem_def JSON_parse_def logout_def unexpired_Num expired_Num)

text \<open>A record that expired at 1000, read at 2000.\<close>

theorem expired_access_token_witness:
  "isAccessTokenValid 2000
     \<lparr>localStorage =
        [ACCESS_TOKEN_KEY \<mapsto> Json (Obj [(''access_token'', Str ''tok''), (''expires_at'', Num 1000)])],
      requests = []\<rparr> =
     (Inr False,
      removeItem ACCESS_TOKEN_KEY
        \<lparr>localStorage =
        [ACCESS_TOKEN_KEY \<mapsto> Json (Obj [(''access_token'', Str ''tok''), (''expires_at'', Num 1000)])],
      requests = []\<rparr>) \<and>
   localStorage
     (snd (isAccessTokenValid 2000
        \<lparr>localStorage =
        [ACCESS_TOKEN_KEY \<mapsto> Json (Obj [(''access_token'', Str ''tok''), (''expires_at'', Num 1000)])],
      requests = []\<rparr>)) ACCESS_TOKEN_KEY = None"
  using expired_access_token
    [of "\<lparr>localStorage =
        [ACCESS_TOKEN_KEY \<mapsto> Json (Obj [(''access_token'', Str ''tok''), (''expires_at'', Num 1000)])],
      requests = []\<rparr>"
        "[(''access_token'', Str ''tok''), (''expires_at'', Num 1000)]" 1000 2000]
  by (simp add: lookup_def removeItem_def)

text \<open>
  The claim as stated fails: the record expired at 1000 and the time is 2000, yet
  \<open>getAccessTokenObject\<close> returns the record and \<open>getAccessToken\<close> its token.
\<close>

theorem expired_access_token_counterexample:
  "getAccessTokenObject
     \<lparr>localStorage =
        [ACCESS_TOKEN_KEY \<mapsto> Json (Obj [(''access_token'', Str ''tok''), (''expires_at'', Num 1000)])],
      requests = []\<rparr> =
     Inr (Obj [(''access_token'', Str ''tok''), (''expires_at'', Num 1000)]) \<and>
   getAccessToken
     \<lparr>localStorage =
        [ACCESS_TOKEN_KEY \<mapsto> Json (Obj [(''access_token'', Str ''tok''), (''expires_at'', Num 1000)])],
      requests = []\<rparr> =
     Inr (Str ''tok'') \<and>
   less_than (Num 1000) 2000 = Inr True"
  by (simp add: getAccessTokenObject_def getAccessToken_def getItem_def JSON_parse_def
      lookup_def)

text \<open>
  C9. The validity check is the expression \<open>unexpired\<close>, which \<open>isAccessTokenValid\<close>
  returns for the stored record and \<open>getGuestToken\<close> tests before it uses a stored
  token. For every token record and every current time: a record whose expiry timestamp
  is the number \<open>e\<close> is reported valid if and only if \<open>now < e\<close> (so a timestamp
  equal to the current time is invalid), and a record with no expiry timestamp is reported
  invalid. So does \<open>isAccessTokenValid\<close> answer for the stored record, and so does
  \<open>getGuestToken\<close> choose between the stored guest token and the server.
\<close>

theorem validity_check:
  "(lookup fs ''expires_at'' = Num e \<longrightarrow> unexpired (Obj fs) now = Inr (int now < e)) \<and>
   (lookup fs ''expires_at'' = Undefined \<or> lookup fs ''expires_at'' = Null \<longrightarrow>
      unexpired (Obj fs) now = Inr False) \<and>
   (localStorage w ACCESS_TOKEN_KEY = Some (Json (Obj fs)) \<and>
    lookup fs ''expires_at'' = Num e \<longrightarrow>
      fst (isAccessTokenValid now w) = Inr (int now < e)) \<and>
   (localStorage w ACCESS_TOKEN_KEY = Some (Json (Obj fs)) \<and>
    (lookup fs ''expires_at'' = Undefined \<or> lookup fs ''expires_at'' = Null) \<longrightarrow>
      isAccessTokenValid now w = (Inr False, w)) \<and>
   (localStorage w GUEST_TOKEN_KEY = Some (Json (Obj fs)) \<and>
    lookup fs ''expires_at'' = Num e \<longrightarrow>
      getGuestToken cfg answer now later w =
        (if int now < e then (Inr (Resolved (lookup fs ''access_token'')), w)
         else (case getGuestTokenFromServer cfg answer later w of (p, w1) \<Rightarrow> (Inr p, w1))))"
proof -
  have 1: "lookup fs ''expires_at'' = Num e \<longrightarrow> unexpired (Obj fs) now = Inr (int now < e)"
    by (simp add: unexpired_Num)
  have 2: "lookup fs ''expires_at'' = Undefined \<or> lookup fs ''expires_at'' = Null \<longrightarrow>
      unexpired (Obj fs) now = Inr False"
    by (auto simp add: unexpired_def)
  have 3: "localStorage w ACCESS_TOKEN_KEY = Some (Json (Obj fs)) \<and>
    lookup fs ''expires_at'' = Num e \<longrightarrow>
      fst (isAccessTokenValid now w) = Inr (int now < e)"
    by (simp add: isAccessTokenValid_def getItem_def JSON_parse_def unexpired_Num
        expired_Num Let_def)
  have 4: "localStorage w ACCESS_TOKEN_KEY = Some (Json (Obj fs)) \<and>
    (lookup fs ''expires_at'' = Undefined \<or> lookup fs ''expires_at'' = Null) \<longrightarrow>
      isAccessTokenValid now w = (Inr False, w)"
    by (auto simp add: isAccessTokenValid_def getItem_def JSON_parse_def unexpired_def
        expired_def)
  have 5: "localStorage w GUEST_TOKEN_KEY = Some (Json (Obj fs)) \<and>
    lookup fs ''expires_at'' = Num e \<longrightarrow>
      getGuestToken cfg answer now later w =
        (if int now < e then (Inr (Resolved (lookup fs ''access_token'')), w)
         else (case getGuestTokenFromServer cfg answer later w of (p, w1) \<Rightarrow> (Inr p, w1)))"
    by (simp add: getGuestToken_def getItem_def JSON_parse_def unexpired_Num)
  from 1 2 3 4 5 show ?thesis by blast
qed

text \<open>
  A record that expires at 5000 is valid at 4999 and invalid at 5000; a record with no
  expiry is invalid.
\<close>

theorem validity_check_witness:
  "unexpired (Obj [(''access_token'', Str ''tok''), (''expires_at'', Num 5000)]) 4999 = Inr True \<and>
   unexpired (Obj [(''access_token'', Str ''tok''), (''expires_at'', Num 5000)]) 5000 = Inr False \<and>
   unexpired (Obj [(''access_token'', Str ''tok'')]) 5000 = Inr False \<and>
   fst (isAccessTokenValid 4999
     \<lparr>localStorage =
        [ACCESS_TOKEN_KEY \<mapsto> Json (Obj [(''access_token'', Str ''tok''), (''expires_at'', Num 5000)])],
      requests = []\<rparr>) = Inr True \<and>
   fst (isAccessTokenValid 5000
     \<lparr>localStorage =
        [ACCESS_TOKEN_KEY \<mapsto> Json (Obj [(''access_token'', Str ''tok''), (''expires_at'', Num 5000)])],
      requests = []\<rparr>) = Inr False \<and>
   isAccessTokenValid 5000
     \<lparr>localStorage =
        [ACCESS_TOKEN_KEY \<mapsto> Json (Obj [(''access_token'', Str ''tok'')])],
      requests = []\<rparr> =
     (Inr False, \<lparr>localStorage =
        [ACCESS_TOKEN_KEY \<mapsto> Json (Obj [(''access_token'', Str ''tok'')])],
      requests = []\<rparr>) \<and>
   getGuestToken uninitialized Pending 4999 6000
     \<lparr>localStorage =
        [GUEST_TOKEN_KEY \<mapsto> Json (Obj [(''access_token'', Str ''tok''), (''expires_at'', Num 5000)])],
      requests = []\<rparr> =
     (Inr (Resolved (Str ''tok'')), \<lparr>localStorage =
        [GUEST_TOKEN_KEY \<mapsto> Json (Obj [(''access_token'', Str ''tok''), (''expires_at'', Num 5000)])],
      requests = []\<rparr>)"
  using
    validity_check
      [where fs = "[(''access_token'', Str ''tok''), (''expires_at'', Num 5000)]"
        and e = 5000 and now = 4999
        and w = "\<lparr>localStorage =
        [ACCESS_TOKEN_KEY \<mapsto> Json (Obj [(''access_token'', Str ''tok''), (''expires_at'', Num 5000)])],
      requests = []\<rparr>"]
    validity_check
      [where fs = "[(''access_token'', Str ''tok''), (''expires_at'', Num 5000)]"
        and e = 5000 and now = 5000
        and w = "\<lparr>localStorage =
        [ACCESS_TOKEN_KEY \<mapsto> Json (Obj [(''access_token'', Str ''tok''), (''expires_at'', Num 5000)])],
      requests = []\<rparr>"]
    validity_check
      [where fs = "[(''access_token'', Str ''tok'')]" and now = 5000
        and w = "\<lparr>localStorage =
        [ACCESS_TOKEN_KEY \<mapsto> Json (Obj [(''access_token'', Str ''tok'')])],
      requests = []\<rparr>"]
    validity_check
      [where fs = "[(''access_token'', Str ''tok''), (''expires_at'', Num 5000)]"
        and e = 5000 and now = 4999
        and w = "\<lparr>localStorage =
        [GUEST_TOKEN_KEY \<mapsto> Json (Obj [(''access_token'', Str ''tok''), (''expires_at'', Num 5000)])],
      requests = []\<rparr>"
        and cfg = uninitialized and answer = Pending and later = 6000]
  by (simp add: lookup_def)

subsection \<open>The guest token\<close>

text \<open>
  C3, as the code has it. The claim: when the guest-token slot is absent or holds an
  expired record, \<open>getGuestToken\<close> falls back to the access-token slot. The code falls
  back only when the guest-token slot is absent: then, if the access-token slot holds a
  record that has not expired, \<open>getGuestToken\<close> resolves to that record's access token,
  with no request and no write. When the guest-token slot holds an expired record, the
  access-token slot is not read: \<open>getGuestToken\<close> asks the server for a guest token.
\<close>

theorem guest_fallback:
  "(localStorage w GUEST_TOKEN_KEY = None \<and>
    localStorage w ACCESS_TOKEN_KEY = Some (Json (Obj fs)) \<and>
    lookup fs ''expires_at'' = Num e \<and> int now < e \<longrightarrow>
      getGuestToken cfg answer now later w =
        (Inr (Resolved (lookup fs ''access_token'')), w)) \<and>
   (localStorage w GUEST_TOKEN_KEY = Some (Json (Obj gs)) \<and>
    lookup gs ''expires_at'' = Num e \<and> e \<le> int now \<longrightarrow>
      getGuestToken cfg answer now later w =
        (case getGuestTokenFromServer cfg answer later w of (p, w1) \<Rightarrow> (Inr p, w1)))"
  by (simp add: getGuestToken_def getItem_def JSON_parse_def unexpired_Num)

text \<open>
  At time 2000: no guest token stored and a user token that is good until 5000; then a
  guest token that expired at 1000 beside the same user token, with no guest-token
  server configured.
\<close>

theorem guest_fallback_witness:
  "getGuestToken uninitialized Pending 2000 3000
     \<lparr>localStorage =
        [ACCESS_TOKEN_KEY \<mapsto> Json (Obj [(''access_token'', Str ''user''), (''expires_at'', Num 5000)])],
      requests = []\<rparr> =
   (Inr (Resolved (Str ''user'')),
    \<lparr>localStorage =
        [ACCESS_TOKEN_KEY \<mapsto> Json (Obj [(''access_token'', Str ''user''), (''expires_at'', Num 5000)])],
      requests = []\<rparr>) \<and>
   getGuestToken uninitialized Pending 2000 3000
     \<lparr>localStorage =
        [GUEST_TOKEN_KEY \<mapsto> Json (Obj [(''access_token'', Str ''guest''), (''expires_at'', Num 1000)]),
         ACCESS_TOKEN_KEY \<mapsto> Json (Obj [(''access_token'', Str ''user''), (''expires_at'', Num 5000)])],
      requests = []\<rparr> =
   (Inr (Rejected (Error ''No Server Implementation'')),
    \<lparr>localStorage =
        [GUEST_TOKEN_KEY \<mapsto> Json (Obj [(''access_token'', Str ''guest''), (''expires_at'', Num 1000)]),
         ACCESS_TOKEN_KEY \<mapsto> Json (Obj [(''access_token'', Str ''user''), (''expires_at'', Num 5000)])],
      requests = []\<rparr>)"
  using
    guest_fallback
      [where w = "\<lparr>localStorage =
        [ACCESS_TOKEN_KEY \<mapsto> Json (Obj [(''access_token'', Str ''user''), (''expires_at'', Num 5000)])],
      requests = []\<rparr>"
        and fs = "[(''access_token'', Str ''user''), (''expires_at'', Num 5000)]"
        and e = 5000 and now = 2000 and cfg = uninitialized and answer = Pending and later = 3000]
    guest_fallback
      [where w = "\<lparr>localStorage =
        [GUEST_TOKEN_KEY \<mapsto> Json (Obj [(''access_token'', Str ''guest''), (''expires_at'', Num 1000)]),
         ACCESS_TOKEN_KEY \<mapsto> Json (Obj [(''access_token'', Str ''user''), (''expires_at'', Num 5000)])],
      requests = []\<rparr>"
        and gs = "[(''access_token'', Str ''guest''), (''expires_at'', Num 1000)]"
        and e = 1000 and now = 2000 and cfg = uninitialized and answer = Pending and later = 3000]
  by (simp add: lookup_def getGuestTokenFromServer_def uninitialized_def)

text \<open>
  The claim as stated fails: the guest token expired at 1000, the user token is good until
  5000 and the time is 2000, yet \<open>getGuestToken\<close> does not resolve to the user token: it
  sends a request to the guest-token server and waits for the answer.
\<close>

theorem guest_fallback_counterexample:
  "getGuestToken
     (initialize (Str ''https://api.spark.autodesk.com/api/v1'')
        (Str ''https://sandbox.spark.autodesk.com/api/v1'') (Str ''key'')
        (Obj [(''guestTokenUrl'', Str ''https://example.com/guest_token'')]))
     Pending 2000 3000
     \<lparr>localStorage =
        [GUEST_TOKEN_KEY \<mapsto> Json (Obj [(''access_token'', Str ''guest''), (''expires_at'', Num 1000)]),
         ACCESS_TOKEN_KEY \<mapsto> Json (Obj [(''access_token'', Str ''user''), (''expires_at'', Num 5000)])],
      requests = []\<rparr> =
   (Inr Pending,
    \<lparr>localStorage =
        [GUEST_TOKEN_KEY \<mapsto> Json (Obj [(''access_token'', Str ''guest''), (''expires_at'', Num 1000)]),
         ACCESS_TOKEN_KEY \<mapsto> Json (Obj [(''access_token'', Str ''user''), (''expires_at'', Num 5000)])],
      requests = [GET (Str ''https://example.com/guest_token'') False Undefined]\<rparr>)"
  by (simp add: getGuestToken_def getItem_def JSON_parse_def unexpired_Num lookup_def
      getGuestTokenFromServer_def initialize_def option_or_null_def and_prop_def send_def)

subsection \<open>Logout\<close>

text \<open>
  C10. \<open>logout\<close> removes the access-token slot and nothing else: every other slot, the
  guest-token slot among them, keeps its value, and no request is made. So a guest token
  that has not expired is still what \<open>getGuestToken\<close> resolves to after \<open>logout\<close>.
\<close>

theorem logout_keeps_guest_token:
  "localStorage (logout w) = (localStorage w)(ACCESS_TOKEN_KEY := None) \<and>
   localStorage (logout w) GUEST_TOKEN_KEY = localStorage w GUEST_TOKEN_KEY \<and>
   requests (logout w) = requests w \<and>
   (localStorage w GUEST_TOKEN_KEY = Some (Json (Obj fs)) \<and>
    lookup fs ''expires_at'' = Num e \<and> int now < e \<longrightarrow>
      getGuestToken cfg answer now later (logout w) =
        (Inr (Resolved (lookup fs ''access_token'')), logout w))"
  by (simp add: logout_def removeItem_def getGuestToken_def getItem_def JSON_parse_def
      unexpired_Num)

text \<open>Both slots hold a token that is good until 5000; logout at 2000.\<close>

theorem logout_keeps_guest_token_witness:
  "localStorage
     (logout
        \<lparr>localStorage =
        [GUEST_TOKEN_KEY \<mapsto> Json (Obj [(''access_token'', Str ''guest''), (''expires_at'', Num 5000)]),
         ACCESS_TOKEN_KEY \<mapsto> Json (Obj [(''access_token'', Str ''user''), (''expires_at'', Num 5000)])],
      requests = []\<rparr>) GUEST_TOKEN_KEY =
     Some (Json (Obj [(''access_token'', Str ''guest''), (''expires_at'', Num 5000)])) \<and>
   localStorage
     (logout
        \<lparr>localStorage =
        [GUEST_TOKEN_KEY \<mapsto> Json (Obj [(''access_token'', Str ''guest''), (''expires_at'', Num 5000)]),
         ACCESS_TOKEN_KEY \<mapsto> Json (Obj [(''access_token'', Str ''user''), (''expires_at'', Num 5000)])],
      requests = []\<rparr>) ACCESS_TOKEN_KEY = None \<and>
   fst (getGuestToken uninitialized Pending 2000 3000
     (logout
        \<lparr>localStorage =
        [GUEST_TOKEN_KEY \<mapsto> Json (Obj [(''access_token'', Str ''guest''), (''expires_at'', Num 5000)]),
         ACCESS_TOKEN_KEY \<mapsto> Json (Obj [(''access_token'', Str ''user''), (''expires_at'', Num 5000)])],
      requests = []\<rparr>)) = Inr (Resolved (Str ''guest''))"
  using logout_keeps_guest_token
    [where w = "\<lparr>localStorage =
        [GUEST_TOKEN_KEY \<mapsto> Json (Obj [(''access_token'', Str ''guest''), (''expires_at'', Num 5000)]),
         ACCESS_TOKEN_KEY \<mapsto> Json (Obj [(''access_token'', Str ''user''), (''expires_at'', Num 5000)])],
      requests = []\<rparr>"
      and fs = "[(''access_token'', Str ''guest''), (''expires_at'', Num 5000)]"
      and e = 5000 and now = 2000 and cfg = uninitialized and answer = Pending and later = 3000]
  by (simp add: lookup_def)

subsection \<open>Collaborators that are not configured\<close>

text \<open>
  C8. Each of the three operations that need a collaborator (guest-token issuance, the
  exchange of a code for an access token, the refresh) tests its URL first: when the URL
  is not configured, the operation is rejected at once with the error
  \<open>No Server Implementation\<close>, and the world is as before: no request, no write.
\<close>

theorem unconfigured_collaborator:
  "(\<not> truthy (guestTokenUrl cfg) \<longrightarrow>
      getGuestTokenFromServer cfg answer later w =
        (Rejected (Error ''No Server Implementation''), w)) \<and>
   (\<not> truthy (accessTokenUrl cfg) \<longrightarrow>
      completeServerLogin cfg calculated code answer later w =
        (Rejected (Error ''No Server Implementation''), w)) \<and>
   (\<not> truthy (refreshTokenUrl cfg) \<longrightarrow>
      refreshAccessToken cfg answer later w =
        (Rejected (Error ''No Server Implementation''), w))"
  by (simp add: getGuestTokenFromServer_def completeServerLogin_def refreshAccessToken_def)

text \<open>
  The client initialized with no options, each server ready to answer with a token, and
  a stored user token.
\<close>

theorem unconfigured_collaborator_witness:
  "getGuestTokenFromServer
     (initialize (Str ''https://api.spark.autodesk.com/api/v1'')
        (Str ''https://sandbox.spark.autodesk.com/api/v1'') (Str ''key'')
        Undefined)
     (Resolved (Obj [(''access_token'', Str ''new''), (''expires_in'', Num 3600)])) 3000
     \<lparr>localStorage =
        [ACCESS_TOKEN_KEY \<mapsto> Json (Obj [(''access_token'', Str ''user''), (''expires_at'', Num 5000)])],
      requests = []\<rparr> =
     (Rejected (Error ''No Server Implementation''),
      \<lparr>localStorage =
        [ACCESS_TOKEN_KEY \<mapsto> Json (Obj [(''access_token'', Str ''user''), (''expires_at'', Num 5000)])],
      requests = []\<rparr>) \<and>
   completeServerLogin
     (initialize (Str ''https://api.spark.autodesk.com/api/v1'')
        (Str ''https://sandbox.spark.autodesk.com/api/v1'') (Str ''key'')
        Undefined)
     (Str ''https://example.com/app'') (Str ''abc123'')
     (Resolved (Obj [(''access_token'', Str ''new''), (''expires_in'', Num 3600)])) 3000
     \<lparr>localStorage =
        [ACCESS_TOKEN_KEY \<mapsto> Json (Obj [(''access_token'', Str ''user''), (''expires_at'', Num 5000)])],
      requests = []\<rparr> =
     (Rejected (Error ''No Server Implementation''),
      \<lparr>localStorage =
        [ACCESS_TOKEN_KEY \<mapsto> Json (Obj [(''access_token'', Str ''user''), (''expires_at'', Num 5000)])],
      requests = []\<rparr>) \<and>
   refreshAccessToken
     (initialize (Str ''https://api.spark.autodesk.com/api/v1'')
        (Str ''https://sandbox.spark.autodesk.com/api/v1'') (Str ''key'')
        Undefined)
     (Resolved (Obj [(''access_token'', Str ''new''), (''expires_in'', Num 3600)])) 3000
     \<lparr>localStorage =
        [ACCESS_TOKEN_KEY \<mapsto> Json (Obj [(''access_token'', Str ''user''), (''expires_at'', Num 5000)])],
      requests = []\<rparr> =
     (Rejected (Error ''No Server Implementation''),
      \<lparr>localStorage =
        [ACCESS_TOKEN_KEY \<mapsto> Json (Obj [(''access_token'', Str ''user''), (''expires_at'', Num 5000)])],
      requests = []\<rparr>)"
  using unconfigured_collaborator
    [where cfg = "initialize (Str ''https://api.spark.autodesk.com/api/v1'')
        (Str ''https://sandbox.spark.autodesk.com/api/v1'') (Str ''key'')
        Undefined"
      and answer = "Resolved (Obj [(''access_token'', Str ''new''), (''expires_in'', Num 3600)])"
      and later = 3000
      and w = "\<lparr>localStorage =
        [ACCESS_TOKEN_KEY \<mapsto> Json (Obj [(''access_token'', Str ''user''), (''expires_at'', Num 5000)])],
      requests = []\<rparr>"
      and calculated = "Str ''https://example.com/app''" and code = "Str ''abc123''"]
  by (simp add: initialize_def option_or_null_def and_prop_def)

subsection \<open>Refresh\<close>

lemma json_of_defined: "v \<noteq> Undefined \<Longrightarrow> json_of v \<noteq> Undefined"
  by (cases v) simp_all

lemma json_idem:
  "json_of (json_of v) = json_of v"
  "json_elements (json_elements xs) = json_elements xs"
  "json_fields (json_fields fs) = json_fields fs"
  by (induction v and xs and fs rule: json_of_json_elements_json_fields.induct)
    (auto simp add: json_of_defined)

lemma json_fields_delete: "json_fields (AList.delete k fs) = AList.delete k (json_fields fs)"
  by (induction fs) auto

lemma json_fields_keys: "k \<notin> fst ` set fs \<Longrightarrow> k \<notin> fst ` set (json_fields fs)"
  by (induction fs) (auto split: if_splits)

lemma lookup_update_other: "k \<noteq> k' \<Longrightarrow> lookup (AList.update k x fs) k' = lookup fs k'"
  by (simp add: lookup_def update_conv')

text \<open>
  C5. When the answer of the refresh server carries an error indicator (a truthy
  \<open>Error\<close> property, which is what the code tests), \<open>refreshAccessToken\<close> writes
  nothing (storage is as before; the request has been made) and its promise is resolved,
  not rejected, with that answer as it came.
\<close>

theorem refresh_error_response:
  assumes "truthy (refreshTokenUrl cfg)"
    and "get_prop data ''Error'' = Inr err" and "truthy err"
  shows "refreshAccessToken cfg (Resolved data) later w =
           (Resolved data, send (GET (refreshTokenUrl cfg) True Undefined) w) \<and>
         localStorage (snd (refreshAccessToken cfg (Resolved data) later w)) = localStorage w"
  using assms by (simp add: refreshAccessToken_def send_def)

text \<open>The refresh server answers \<open>{Error: "invalid_grant"}\<close>.\<close>

theorem refresh_error_response_witness:
  "refreshAccessToken
     (initialize (Str ''https://api.spark.autodesk.com/api/v1'')
        (Str ''https://sandbox.spark.autodesk.com/api/v1'') (Str ''key'')
        (Obj [(''refreshTokenUrl'', Str ''https://example.com/refresh_token'')]))
     (Resolved (Obj [(''Error'', Str ''invalid_grant'')])) 3000
     \<lparr>localStorage =
        [ACCESS_TOKEN_KEY \<mapsto> Json (Obj [(''access_token'', Str ''user''), (''expires_at'', Num 1000)])],
      requests = []\<rparr> =
   (Resolved (Obj [(''Error'', Str ''invalid_grant'')]),
    \<lparr>localStorage =
        [ACCESS_TOKEN_KEY \<mapsto> Json (Obj [(''access_token'', Str ''user''), (''expires_at'', Num 1000)])],
     requests = [GET (Str ''https://example.com/refresh_token'') True Undefined]\<rparr>)"
  using refresh_error_response
    [where cfg = "initialize (Str ''https://api.spark.autodesk.com/api/v1'')
        (Str ''https://sandbox.spark.autodesk.com/api/v1'') (Str ''key'')
        (Obj [(''refreshTokenUrl'', Str ''https://example.com/refresh_token'')])"
      and data = "Obj [(''Error'', Str ''invalid_grant'')]" and err = "Str ''invalid_grant''"
      and later = 3000
      and w = "\<lparr>localStorage =
        [ACCESS_TOKEN_KEY \<mapsto> Json (Obj [(''access_token'', Str ''user''), (''expires_at'', Num 1000)])],
      requests = []\<rparr>"]
  by (simp add: initialize_def option_or_null_def and_prop_def lookup_def send_def)

text \<open>
  C6. When the answer of the refresh server is an object with no error indicator, whose
  \<open>expires_in\<close> is a number of seconds (a natural number, the expiry computed from
  it within the integers that a double holds exactly), \<open>refreshAccessToken\<close> resolves
  with that very object, on which it has set \<open>expires_at\<close> and from which it has
  removed nothing: its \<open>refresh_token\<close> property is the one the server sent. After it
  the access-token slot holds the JSON copy of that object from which \<open>refresh_token\<close>
  has been deleted, a record with no such field; the other slots are as before, and one
  request has been made.
\<close>

theorem refresh_success:
  assumes "truthy (refreshTokenUrl cfg)" and "\<not> truthy (lookup fs ''Error'')"
    and "lookup fs ''expires_in'' = Num n" and "0 \<le> n"
    and "int later + n * 1000 \<le> 9007199254740991"
    and "data1 = Obj (AList.update ''expires_at'' (Num (int later + n * 1000)) fs)"
    and "stored = Obj (AList.delete ''refresh_token''
           (json_fields (AList.update ''expires_at'' (Num (int later + n * 1000)) fs)))"
    and "result = refreshAccessToken cfg (Resolved (Obj fs)) later w"
  shows "fst result = Resolved data1 \<and>
         get_prop data1 ''refresh_token'' = Inr (lookup fs ''refresh_token'') \<and>
         localStorage (snd result) ACCESS_TOKEN_KEY = Some (Json stored) \<and>
         \<not> has_field stored ''refresh_token'' \<and>
         (\<forall>k. k \<noteq> ACCESS_TOKEN_KEY \<longrightarrow> localStorage (snd result) k = localStorage w k) \<and>
         requests (snd result) = requests w @ [GET (refreshTokenUrl cfg) True Undefined]"
  using assms
  by (simp add: refreshAccessToken_def JSON_stringify_def JSON_parse_def Let_def expiry_Num
      lookup_update_other has_field_def delete_notin_dom setItem_def send_def
      json_fields_delete json_idem)

text \<open>
  The refresh server answers with a new access token, good for 3600 seconds, and a refresh
  token; the answer is handled at time 3000, and an expired token was stored.
\<close>

theorem refresh_success_witness:
  "fst (refreshAccessToken
     (initialize (Str ''https://api.spark.autodesk.com/api/v1'')
        (Str ''https://sandbox.spark.autodesk.com/api/v1'') (Str ''key'')
        (Obj [(''refreshTokenUrl'', Str ''https://example.com/refresh_token'')]))
     (Resolved (Obj [(''access_token'', Str ''new''), (''expires_in'', Num 3600),
                        (''refresh_token'', Str ''secret'')])) 3000
     \<lparr>localStorage =
        [ACCESS_TOKEN_KEY \<mapsto> Json (Obj [(''access_token'', Str ''user''), (''expires_at'', Num 1000)])],
      requests = []\<rparr>) =
     Resolved (Obj [(''access_token'', Str ''new''), (''expires_in'', Num 3600),
                    (''refresh_token'', Str ''secret''), (''expires_at'', Num 3603000)]) \<and>
   localStorage (snd (refreshAccessToken
     (initialize (Str ''https://api.spark.autodesk.com/api/v1'')
        (Str ''https://sandbox.spark.autodesk.com/api/v1'') (Str ''key'')
        (Obj [(''refreshTokenUrl'', Str ''https://example.com/refresh_token'')]))
     (Resolved (Obj [(''access_token'', Str ''new''), (''expires_in'', Num 3600),
                        (''refresh_token'', Str ''secret'')])) 3000
     \<lparr>localStorage =
        [ACCESS_TOKEN_KEY \<mapsto> Json (Obj [(''access_token'', Str ''user''), (''expires_at'', Num 1000)])],
      requests = []\<rparr>)) ACCESS_TOKEN_KEY =
     Some (Json (Obj [(''access_token'', Str ''new''), (''expires_in'', Num 3600),
                      (''expires_at'', Num 3603000)]))"
  using refresh_success
    [where cfg = "initialize (Str ''https://api.spark.autodesk.com/api/v1'')
        (Str ''https://sandbox.spark.autodesk.com/api/v1'') (Str ''key'')
        (Obj [(''refreshTokenUrl'', Str ''https://example.com/refresh_token'')])"
      and fs = "[(''access_token'', Str ''new''), (''expires_in'', Num 3600),
                 (''refresh_token'', Str ''secret'')]"
      and n = 3600 and later = 3000
      and w = "\<lparr>localStorage =
        [ACCESS_TOKEN_KEY \<mapsto> Json (Obj [(''access_token'', Str ''user''), (''expires_at'', Num 1000)])],
      requests = []\<rparr>",
      OF _ _ _ _ _ refl refl refl]
  by (simp add: initialize_def option_or_null_def and_prop_def lookup_def)

subsection \<open>No refresh token in storage\<close>

lemma delete_prop_without:
  "delete_prop v k = Inr v1 \<Longrightarrow> \<not> has_field v1 k \<and> v1 \<noteq> Undefined"
  by (cases v) (auto simp add: has_field_def delete_notin_dom)

lemma stringify_without:
  "\<not> has_field v k \<Longrightarrow> v \<noteq> Undefined \<Longrightarrow> \<exists>j. JSON_stringify v = Json j \<and> \<not> has_field j k"
  by (cases v) (auto simp add: JSON_stringify_def has_field_def json_fields_keys)

lemma stored_without:
  assumes "delete_prop v ''refresh_token'' = Inr v1"
  shows "without_refresh_token w (setItem ACCESS_TOKEN_KEY (JSON_stringify v1) w1)"
proof -
  obtain j where "JSON_stringify v1 = Json j" "\<not> has_field j ''refresh_token''"
    using delete_prop_without [OF assms] stringify_without by blast
  then show ?thesis by (simp add: without_refresh_token_def setItem_def)
qed

lemma sent_without [simp]: "without_refresh_token w (send r w)"
  by (simp add: without_refresh_token_def send_def)

lemma same_without [simp]: "without_refresh_token w w"
  by (simp add: without_refresh_token_def)

lemma stored_after_send:
  "without_refresh_token (send r w) w1 \<Longrightarrow> without_refresh_token w w1"
  by (simp add: without_refresh_token_def send_def)

text \<open>
  C7. The three writers of the access-token slot are the implicit login completion, the
  server-mediated login completion and the refresh. Whatever the access token, the code,
  the answer of the server (with a refresh token or without, or no answer at all) and the
  world before, each of them leaves the access-token slot as it was or holding a payload
  with no refresh-token field.
\<close>

theorem refresh_token_never_persisted:
  "without_refresh_token w (snd (completeImplicitLogin accessToken expiresIn now w)) \<and>
   without_refresh_token w (snd (completeServerLogin cfg calculated code answer later w)) \<and>
   without_refresh_token w (snd (refreshAccessToken cfg answer later w))"
proof -
  have 1: "without_refresh_token w (snd (completeImplicitLogin accessToken expiresIn now w))"
    by (simp add: completeImplicitLogin_def without_refresh_token_def setItem_def
        JSON_stringify_def has_field_def json_fields_keys split: sum.splits)
  have 2: "without_refresh_token w (snd (completeServerLogin cfg calculated code answer later w))"
    by (auto simp add: completeServerLogin_def Let_def stored_without
        intro!: stored_after_send split: promise.splits sum.splits)
  have 3: "without_refresh_token w (snd (refreshAccessToken cfg answer later w))"
    by (auto simp add: refreshAccessToken_def Let_def stored_without
        intro!: stored_after_send split: promise.splits sum.splits)
  from 1 2 3 show ?thesis by blast
qed

text \<open>
  The exchange server answers with an access token and a refresh token, and nothing was
  stored before: what is stored afterwards has no refresh token.
\<close>

theorem refresh_token_never_persisted_witness:
  "localStorage
     (snd (completeServerLogin
        (initialize (Str ''https://api.spark.autodesk.com/api/v1'')
        (Str ''https://sandbox.spark.autodesk.com/api/v1'') (Str ''key'')
        (Obj [(''accessTokenUrl'', Str ''https://example.com/access_token'')]))
        (Str ''https://example.com/app'') (Str ''abc123'')
        (Resolved (Obj [(''access_token'', Str ''new''), (''expires_in'', Num 3600),
                        (''refresh_token'', Str ''secret'')])) 3000
        \<lparr>localStorage = Map.empty, requests = []\<rparr>)) ACCESS_TOKEN_KEY =
     Some (Json (Obj [(''access_token'', Str ''new''), (''expires_in'', Num 3600),
                      (''expires_at'', Num 3603000)])) \<and>
   without_refresh_token \<lparr>localStorage = Map.empty, requests = []\<rparr>
     (snd (completeServerLogin
        (initialize (Str ''https://api.spark.autodesk.com/api/v1'')
        (Str ''https://sandbox.spark.autodesk.com/api/v1'') (Str ''key'')
        (Obj [(''accessTokenUrl'', Str ''https://example.com/access_token'')]))
        (Str ''https://example.com/app'') (Str ''abc123'')
        (Resolved (Obj [(''access_token'', Str ''new''), (''expires_in'', Num 3600),
                        (''refresh_token'', Str ''secret'')])) 3000
        \<lparr>localStorage = Map.empty, requests = []\<rparr>))"
  using refresh_token_never_persisted
    [where w = "\<lparr>localStorage = Map.empty, requests = []\<rparr>"
      and cfg = "initialize (Str ''https://api.spark.autodesk.com/api/v1'')
        (Str ''https://sandbox.spark.autodesk.com/api/v1'') (Str ''key'')
        (Obj [(''accessTokenUrl'', Str ''https://example.com/access_token'')])"
      and calculated = "Str ''https://example.com/app''" and code = "Str ''abc123''"
      and answer = "Resolved (Obj [(''access_token'', Str ''new''), (''expires_in'', Num 3600),
                        (''refresh_token'', Str ''secret'')])"
      and later = 3000]
  by (simp add: completeServerLogin_def initialize_def option_or_null_def and_prop_def
      lookup_def send_def setItem_def JSON_stringify_def expiry_Num)

subsection \<open>The authorization header\<close>

lemma bearer_primitive: "primitive v \<Longrightarrow> \<exists>h. bearer v = Inr h"
  using to_string_primitive [of v] by (auto simp add: bearer_def)

lemma formatAuthHeader_plain:
  assumes "truthy v" and "primitive (and_prop v ''access_token'')"
  shows "\<exists>h. formatAuthHeader v = Inr h"
  using assms bearer_primitive [of "and_prop v ''access_token''"]
  by (auto simp add: formatAuthHeader_def and_prop_get)

lemma refresh_due_plain:
  assumes "primitive (and_prop v ''expires_at'')"
  shows "\<exists>b. (if truthy u \<and> truthy (and_prop v ''expires_at'')
              then less_than (and_prop v ''expires_at'') now else Inr False) = Inr b"
  using to_number_primitive [OF assms] by (auto simp add: less_than_def)

lemma plain_record_parse:
  "plain_record p \<Longrightarrow>
     \<exists>v. JSON_parse p = Inr v \<and> primitive (and_prop v ''expires_at'') \<and>
         primitive (and_prop v ''access_token'')"
  by (auto simp add: plain_record_def JSON_parse_def primitive_def and_prop_def
      split: option.splits payload.splits)

text \<open>
  C4, as the code has it. The claim: the resolution of the authorization header never
  rejects and resolves to \<open>null\<close> whenever no token can be produced, except that a
  failed guest-token issuance propagates as a rejection. What the code guarantees: when
  the access-token slot holds nothing, or valid JSON whose expiry and access token are no
  objects or arrays, the header promise of \<open>authorizedApiRequest\<close> is never rejected,
  whatever the configuration and the answer of the server; when that slot is absent the
  header resolves to \<open>null\<close>, with no request and no write; when it holds a record
  whose access token is a text and no refresh URL is configured, the header resolves to
  \<open>Bearer\<close> and that text. And whenever \<open>getGuestToken\<close> resolves with a text, the
  header promise of \<open>authorizedAsGuestApiRequest\<close> resolves to \<open>Bearer\<close> and that
  text (to \<open>null\<close> for the empty text).
\<close>

theorem header_resolution:
  "(plain_record (localStorage w ACCESS_TOKEN_KEY) \<longrightarrow>
      (\<forall>e. fst (authorizedApiRequest cfg answer now later w) \<noteq> Rejected e)) \<and>
   (localStorage w ACCESS_TOKEN_KEY = None \<longrightarrow>
      authorizedApiRequest cfg answer now later w = (Resolved Null, w)) \<and>
   (\<forall>fs s. localStorage w ACCESS_TOKEN_KEY = Some (Json (Obj fs)) \<and>
      lookup fs ''access_token'' = Str s \<and> \<not> truthy (refreshTokenUrl cfg) \<longrightarrow>
      authorizedApiRequest cfg answer now later w = (Resolved (Str (''Bearer '' @ s)), w)) \<and>
   (\<forall>s w1. getGuestToken cfg answer now later w = (Inr (Resolved (Str s)), w1) \<longrightarrow>
      authorizedAsGuestApiRequest cfg answer now later w =
        (Resolved (if s = [] then Null else Str (''Bearer '' @ s)), w1))"
proof -
  have 1: "fst (authorizedApiRequest cfg answer now later w) \<noteq> Rejected e"
    if p: "plain_record (localStorage w ACCESS_TOKEN_KEY)" for e
  proof -
    obtain av where av: "JSON_parse (localStorage w ACCESS_TOKEN_KEY) = Inr av"
      and ex: "primitive (and_prop av ''expires_at'')"
      and at: "primitive (and_prop av ''access_token'')"
      using plain_record_parse [OF p] by blast
    show ?thesis
    proof (cases "truthy av")
      case True
      obtain b where b:
        "(if truthy (refreshTokenUrl cfg) \<and> truthy (and_prop av ''expires_at'')
          then less_than (and_prop av ''expires_at'') now else Inr False) = Inr b"
        using refresh_due_plain [OF ex] by blast
      obtain h where h: "formatAuthHeader av = Inr h"
        using formatAuthHeader_plain [OF True at] by blast
      show ?thesis
        by (simp add: authorizedApiRequest_def getItem_def av True b h
            split: prod.splits promise.splits sum.splits)
    next
      case False
      then show ?thesis by (simp add: authorizedApiRequest_def getItem_def av)
    qed
  qed
  have 2: "localStorage w ACCESS_TOKEN_KEY = None \<longrightarrow>
      authorizedApiRequest cfg answer now later w = (Resolved Null, w)"
    by (simp add: authorizedApiRequest_def getItem_def JSON_parse_def)
  have 3: "\<forall>fs s. localStorage w ACCESS_TOKEN_KEY = Some (Json (Obj fs)) \<and>
      lookup fs ''access_token'' = Str s \<and> \<not> truthy (refreshTokenUrl cfg) \<longrightarrow>
      authorizedApiRequest cfg answer now later w = (Resolved (Str (''Bearer '' @ s)), w)"
    by (simp add: authorizedApiRequest_def getItem_def JSON_parse_def formatAuthHeader_def
        bearer_def)
  have 4: "\<forall>s w1. getGuestToken cfg answer now later w = (Inr (Resolved (Str s)), w1) \<longrightarrow>
      authorizedAsGuestApiRequest cfg answer now later w =
        (Resolved (if s = [] then Null else Str (''Bearer '' @ s)), w1)"
    by (simp add: authorizedAsGuestApiRequest_def bearer_def)
  from 1 2 3 4 show ?thesis by blast
qed

text \<open>
  At time 2000, with the client not initialized: nothing is stored; then a user token;
  then a guest token that is good until 5000.
\<close>

theorem header_resolution_witness:
  "authorizedApiRequest uninitialized Pending 2000 3000
     \<lparr>localStorage = Map.empty, requests = []\<rparr> =
     (Resolved Null, \<lparr>localStorage = Map.empty, requests = []\<rparr>) \<and>
   authorizedApiRequest uninitialized Pending 2000 3000
     \<lparr>localStorage =
        [ACCESS_TOKEN_KEY \<mapsto> Json (Obj [(''access_token'', Str ''user''), (''expires_at'', Num 5000)])],
      requests = []\<rparr> =
     (Resolved (Str ''Bearer user''),
      \<lparr>localStorage =
        [ACCESS_TOKEN_KEY \<mapsto> Json (Obj [(''access_token'', Str ''user''), (''expires_at'', Num 5000)])],
      requests = []\<rparr>) \<and>
   authorizedAsGuestApiRequest uninitialized Pending 2000 3000
     \<lparr>localStorage =
        [GUEST_TOKEN_KEY \<mapsto> Json (Obj [(''access_token'', Str ''guest''), (''expires_at'', Num 5000)])],
      requests = []\<rparr> =
     (Resolved (Str ''Bearer guest''),
      \<lparr>localStorage =
        [GUEST_TOKEN_KEY \<mapsto> Json (Obj [(''access_token'', Str ''guest''), (''expires_at'', Num 5000)])],
      requests = []\<rparr>)"
  using
    header_resolution
      [where w = "\<lparr>localStorage = Map.empty, requests = []\<rparr>" and cfg = uninitialized
        and answer = Pending and now = 2000 and later = 3000]
    header_resolution
      [where w = "\<lparr>localStorage =
        [ACCESS_TOKEN_KEY \<mapsto> Json (Obj [(''access_token'', Str ''user''), (''expires_at'', Num 5000)])],
      requests = []\<rparr>" and cfg = uninitialized
        and answer = Pending and now = 2000 and later = 3000]
    header_resolution
      [where w = "\<lparr>localStorage =
        [GUEST_TOKEN_KEY \<mapsto> Json (Obj [(''access_token'', Str ''guest''), (''expires_at'', Num 5000)])],
      requests = []\<rparr>" and cfg = uninitialized
        and answer = Pending and now = 2000 and later = 3000]
  by (simp add: getGuestToken_def getItem_def JSON_parse_def unexpired_Num lookup_def
      uninitialized_def)

text \<open>
  The claim as stated fails. A stored text that is not valid JSON rejects the header
  promise, and so does the valid JSON \<open>{"access_token":{"toString":0}}\<close>, whose access
  token cannot be made a text, and, when a refresh URL is configured, a stored expiry of
  that kind, which cannot be compared with the clock. When the stored guest token is such
  an object, the header promise of \<open>authorizedAsGuestApiRequest\<close> is neither rejected
  nor resolved. With nothing stored and no guest-token server configured,
  \<open>getGuestToken\<close> is rejected, and the header promise of
  \<open>authorizedAsGuestApiRequest\<close> is neither rejected nor resolved. And when the refresh
  server answers an expired token with an error, the header of \<open>authorizedApiRequest\<close>
  resolves, not to \<open>null\<close>, but to the text \<open>Bearer undefined\<close>.
\<close>

theorem header_resolution_counterexample:
  "fst (authorizedApiRequest uninitialized Pending 0 0
      \<lparr>localStorage =
        [ACCESS_TOKEN_KEY \<mapsto> Garbage],
      requests = []\<rparr>) = Rejected SyntaxError \<and>
   fst (authorizedApiRequest uninitialized Pending 2000 3000
      \<lparr>localStorage =
        [ACCESS_TOKEN_KEY \<mapsto> Json (Obj [(''access_token'', Obj [(''toString'', Num 0)])])],
      requests = []\<rparr>) =
     Rejected TypeError \<and>
   fst (authorizedApiRequest
      (initialize (Str ''https://api.spark.autodesk.com/api/v1'')
        (Str ''https://sandbox.spark.autodesk.com/api/v1'') (Str ''key'')
        (Obj [(''refreshTokenUrl'', Str ''https://example.com/refresh_token'')]))
      Pending 2000 3000
      \<lparr>localStorage =
        [ACCESS_TOKEN_KEY \<mapsto>
           Json (Obj [(''access_token'', Str ''tok''),
                      (''expires_at'', Obj [(''toString'', Num 0)])])],
      requests = []\<rparr>) =
     Rejected TypeError \<and>
   fst (authorizedAsGuestApiRequest uninitialized Pending 2000 3000
      \<lparr>localStorage =
        [GUEST_TOKEN_KEY \<mapsto>
           Json (Obj [(''access_token'', Obj [(''toString'', Num 0)]),
                      (''expires_at'', Num 5000)])],
      requests = []\<rparr>) = Pending \<and>
   fst (authorizedAsGuestApiRequest uninitialized Pending 0 0
      \<lparr>localStorage = Map.empty, requests = []\<rparr>) = Pending \<and>
   fst (getGuestToken uninitialized Pending 0 0
      \<lparr>localStorage = Map.empty, requests = []\<rparr>) =
     Inr (Rejected (Error ''No Server Implementation'')) \<and>
   fst (authorizedApiRequest
      (initialize (Str ''https://api.spark.autodesk.com/api/v1'')
        (Str ''https://sandbox.spark.autodesk.com/api/v1'') (Str ''key'')
        (Obj [(''refreshTokenUrl'', Str ''https://example.com/refresh_token'')]))
      (Resolved (Obj [(''Error'', Str ''invalid_grant'')])) 2000 3000
      \<lparr>localStorage =
        [ACCESS_TOKEN_KEY \<mapsto> Json (Obj [(''access_token'', Str ''tok''), (''expires_at'', Num 1000)])],
      requests = []\<rparr>) = Resolved (Str ''Bearer undefined'')"
  by (simp add: authorizedApiRequest_def authorizedAsGuestApiRequest_def getGuestToken_def
      getGuestTokenFromServer_def refreshAccessToken_def formatAuthHeader_def bearer_def
      getItem_def JSON_parse_def unexpired_def and_prop_def uninitialized_def own_def
      initialize_def option_or_null_def lookup_def send_def less_than_def)

end
